theory Spec2Isabelle
  imports Main
begin

section \<open>JSON values and the JavaScript coercions the server relies on\<close>

text \<open>
  Request bodies and remote responses are parsed JSON. Numbers are the integers that a
  double holds exactly (meeting ids and the like, of absolute value below 2 to the power 53); fractional
  and larger numbers do not occur in the fields the server reads.
  An object is its list of members in document order; a repeated key takes its last value,
  as \<^verbatim>\<open>JSON.parse\<close> does.
\<close>

datatype json =
    JUndefined
  | JNull
  | JBool bool
  | JNum int
  | JStr string
  | JArr "json list"
  | JObj "(string \<times> json) list"

text \<open>JavaScript truthiness: what \<^verbatim>\<open>if (v)\<close>, \<^verbatim>\<open>!v\<close>, \<^verbatim>\<open>a && b\<close> and \<^verbatim>\<open>a || b\<close> test.\<close>

fun truthy :: "json \<Rightarrow> bool" where
  "truthy JUndefined = False"
| "truthy JNull = False"
| "truthy (JBool b) = b"
| "truthy (JNum n) = (n \<noteq> 0)"
| "truthy (JStr s) = (s \<noteq> [])"
| "truthy (JArr xs) = True"
| "truthy (JObj kvs) = True"

text \<open>\<^verbatim>\<open>a || b\<close>\<close>

definition js_or :: "json \<Rightarrow> json \<Rightarrow> json" where
  "js_or a b = (if truthy a then a else b)"

text \<open>
  \<^verbatim>\<open>v?.k\<close>: the member \<open>k\<close> of an object, \<^verbatim>\<open>undefined\<close> when \<open>v\<close> is
  \<^verbatim>\<open>undefined\<close>, \<^verbatim>\<open>null\<close>, or has no such member. The plain access \<^verbatim>\<open>v.k\<close>
  agrees with it wherever \<open>v\<close> is neither \<^verbatim>\<open>undefined\<close> nor \<^verbatim>\<open>null\<close>; on those two it
  throws a TypeError (\<open>nullish\<close> below is tested where the source can meet that case).
\<close>

fun get_prop :: "json \<Rightarrow> string \<Rightarrow> json" where
  "get_prop (JObj kvs) k = (case map_of (rev kvs) k of Some v \<Rightarrow> v | None \<Rightarrow> JUndefined)"
| "get_prop v k = JUndefined"

fun nullish :: "json \<Rightarrow> bool" where
  "nullish JUndefined = True"
| "nullish JNull = True"
| "nullish v = False"

text \<open>\<^verbatim>\<open>v?.[0]\<close>: first element of an array, first character of a string, member "0" of an object.\<close>

fun index0 :: "json \<Rightarrow> json" where
  "index0 (JArr []) = JUndefined"
| "index0 (JArr (x # xs)) = x"
| "index0 (JStr []) = JUndefined"
| "index0 (JStr (c # cs)) = JStr [c]"
| "index0 (JObj kvs) = get_prop (JObj kvs) ''0''"
| "index0 v = JUndefined"

text \<open>Decimal rendering of a number, as \<^verbatim>\<open>String(n)\<close> gives for an integer.\<close>

definition digit_char :: "nat \<Rightarrow> char" where
  "digit_char d = char_of (48 + d)"

function show_nat :: "nat \<Rightarrow> string" where
  "show_nat n = (if n < 10 then [digit_char n] else show_nat (n div 10) @ [digit_char (n mod 10)])"
  by pat_completeness auto
termination
  by (relation "measure id") auto

definition show_int :: "int \<Rightarrow> string" where
  "show_int i = (if i < 0 then CHR ''-'' # show_nat (nat (- i)) else show_nat (nat i))"

text \<open>Joining with a separator, as \<^verbatim>\<open>Array.prototype.join\<close>.\<close>

fun join_with :: "string \<Rightarrow> string list \<Rightarrow> string" where
  "join_with sep [] = []"
| "join_with sep [x] = x"
| "join_with sep (x # y # ys) = x @ sep @ join_with sep (y # ys)"

text \<open>
  String conversion inside a template literal \<^verbatim>\<open>`${v}`\<close>. An array renders its elements
  joined by commas (\<^verbatim>\<open>null\<close> elements as the empty string), an object as
  \<^verbatim>\<open>[object Object]\<close>. The latter is the conversion of an object without a member named
  \<^verbatim>\<open>toString\<close>; an object parsed with such a member cannot be converted (the template
  literal throws a TypeError), and values that carry one are not covered by \<open>js_toString\<close>.
\<close>

fun js_toString :: "json \<Rightarrow> string" where
  "js_toString JUndefined = ''undefined''"
| "js_toString JNull = ''null''"
| "js_toString (JBool b) = (if b then ''true'' else ''false'')"
| "js_toString (JNum n) = show_int n"
| "js_toString (JStr s) = s"
| "js_toString (JArr xs) = join_with '','' (map (\<lambda>x. if nullish x then [] else js_toString x) xs)"
| "js_toString (JObj kvs) = ''[object Object]''"

text \<open>
  A string is a list of characters with codes 0 to 255, read as the code points U+0000 to
  U+00FF (Latin-1). On these, \<^verbatim>\<open>String.prototype.trim\<close> removes tab, line feed, vertical
  tab, form feed, carriage return, space and the no-break space U+00A0, and
  \<^verbatim>\<open>toLowerCase\<close> maps the letters A to Z and U+00C0 to U+00DE (the multiplication sign
  U+00D7 apart) to the letter 32 code points higher.
\<close>

definition is_space :: "char \<Rightarrow> bool" where
  "is_space c = (of_char c \<in> {9::nat, 10, 11, 12, 13, 32, 160})"

definition trim :: "string \<Rightarrow> string" where
  "trim s = rev (dropWhile is_space (rev (dropWhile is_space s)))"

definition is_upper :: "nat \<Rightarrow> bool" where
  "is_upper n = (65 \<le> n \<and> n \<le> 90 \<or> 192 \<le> n \<and> n \<le> 222 \<and> n \<noteq> 215)"

definition lower_char :: "char \<Rightarrow> char" where
  "lower_char c = (let n = (of_char c :: nat) in if is_upper n then char_of (n + 32) else c)"

definition toLowerCase :: "string \<Rightarrow> string" where
  "toLowerCase s = map lower_char s"

text \<open>A value read from \<^verbatim>\<open>process.env\<close> or from a request header: a string or absent.\<close>

definition of_opt :: "string option \<Rightarrow> json" where
  "of_opt v = (case v of None \<Rightarrow> JUndefined | Some s \<Rightarrow> JStr s)"


section \<open>The Mongoose models: \<^verbatim>\<open>ZoomEvent\<close>, \<^verbatim>\<open>Contact\<close>, \<^verbatim>\<open>Settings\<close>\<close>

text \<open>
  The three collections hold documents of the schemas under \<^verbatim>\<open>models/\<close>. The date fields
  (\<^verbatim>\<open>processedAt\<close>, \<^verbatim>\<open>createdAt\<close>, \<^verbatim>\<open>updatedAt\<close>) are left out: no decision of the
  server reads them. A store operation either returns or throws; what it throws is a
  \<open>db_error\<close>.
\<close>

datatype db_error = CastError | ValidationError | DuplicateKey

text \<open>
  Casting a value to a path of type \<^verbatim>\<open>String\<close>: \<^verbatim>\<open>undefined\<close> and \<^verbatim>\<open>null\<close> stay
  absent; a string, number or boolean becomes its string; an object that holds a non-empty
  string under \<^verbatim>\<open>_id\<close> is taken for a document and becomes that string; any other object
  and every array is refused.
\<close>

fun castString :: "json \<Rightarrow> db_error + string option" where
  "castString JUndefined = Inr None"
| "castString JNull = Inr None"
| "castString (JBool b) = Inr (Some (if b then ''true'' else ''false''))"
| "castString (JNum n) = Inr (Some (show_int n))"
| "castString (JStr s) = Inr (Some s)"
| "castString (JArr xs) = Inl CastError"
| "castString (JObj kvs) =
     (case get_prop (JObj kvs) ''_id'' of
        JStr s \<Rightarrow> if s = [] then Inl CastError else Inr (Some s)
      | v \<Rightarrow> Inl CastError)"

text \<open>
  Casting the value \<open>v\<close> of a filter \<^verbatim>\<open>{ path: v }\<close> on a \<^verbatim>\<open>String\<close> path. An array is
  turned into \<^verbatim>\<open>{ $in: [...] }\<close> with each element cast: the filter selects the documents
  whose value is one of the elements, \<^verbatim>\<open>null\<close> selecting an absent value. Any other value
  is cast and selects the documents that hold it. The result is the list of the values
  selected.

  An object with a member whose name starts with \<^verbatim>\<open>$\<close> is a condition made of query
  operators (\<^verbatim>\<open>$ne\<close>, \<^verbatim>\<open>$gt\<close>, \<^verbatim>\<open>$regex\<close>, ...), evaluated by the database. Operators are
  not interpreted here: \<open>cast_query\<close> casts such an object like any other, and
  \<open>query_operators\<close> marks the filter values to which this applies.
\<close>

fun operator_key :: "string \<Rightarrow> bool" where
  "operator_key [] = False"
| "operator_key (c # cs) = (c = CHR ''$'')"

fun query_operators :: "json \<Rightarrow> bool" where
  "query_operators (JObj kvs) = list_ex operator_key (map fst kvs)"
| "query_operators v = False"

fun cast_each :: "(json \<Rightarrow> db_error + 'a) \<Rightarrow> json list \<Rightarrow> db_error + 'a list" where
  "cast_each cast [] = Inr []"
| "cast_each cast (x # xs) =
     (case cast x of
        Inl e \<Rightarrow> Inl e
      | Inr k \<Rightarrow> (case cast_each cast xs of Inl e \<Rightarrow> Inl e | Inr ks \<Rightarrow> Inr (k # ks)))"

definition cast_query ::
  "(json \<Rightarrow> db_error + string option) \<Rightarrow> json \<Rightarrow> db_error + string option list" where
  "cast_query cast v =
     (case v of
        JArr xs \<Rightarrow> cast_each cast xs
      | _ \<Rightarrow> (case cast v of Inl e \<Rightarrow> Inl e | Inr k \<Rightarrow> Inr [k]))"

text \<open>
  A path declared \<^verbatim>\<open>required: true\<close>, checked when a document is validated before it is
  saved: the value must cast, be present and be a non-empty string.
\<close>

definition required_string :: "(db_error + string option) \<Rightarrow> db_error + string" where
  "required_string c =
     (case c of
        Inl e \<Rightarrow> Inl ValidationError
      | Inr None \<Rightarrow> Inl ValidationError
      | Inr (Some s) \<Rightarrow> if s = [] then Inl ValidationError else Inr s)"

text \<open>An optional \<^verbatim>\<open>String\<close> path of a document being validated.\<close>

definition optional_string :: "json \<Rightarrow> db_error + string option" where
  "optional_string v = (case castString v of Inl e \<Rightarrow> Inl ValidationError | Inr s \<Rightarrow> Inr s)"

subsection \<open>\<^verbatim>\<open>ZoomEvent\<close>: the event ledger\<close>

text \<open>\<^verbatim>\<open>eventId\<close>: required, unique. \<^verbatim>\<open>eventType\<close>: required. \<^verbatim>\<open>email\<close>: optional.\<close>

record zoom_event =
  ze_eventId :: string
  ze_eventType :: string
  ze_email :: "string option"

text \<open>\<^verbatim>\<open>ZoomEvent.findOne({ eventId })\<close>\<close>

definition ZoomEvent_findOne :: "zoom_event list \<Rightarrow> json \<Rightarrow> db_error + zoom_event option" where
  "ZoomEvent_findOne evs eventId =
     (case cast_query castString eventId of
        Inl e \<Rightarrow> Inl e
      | Inr ks \<Rightarrow> Inr (find (\<lambda>e. Some (ze_eventId e) \<in> set ks) evs))"

text \<open>
  \<^verbatim>\<open>ZoomEvent.create({ eventId, eventType, email })\<close>: the document is validated, then
  inserted; the unique index on \<^verbatim>\<open>eventId\<close> refuses a second document with the same id.
\<close>

definition ZoomEvent_create ::
  "zoom_event list \<Rightarrow> json \<Rightarrow> json \<Rightarrow> json \<Rightarrow> db_error + zoom_event list" where
  "ZoomEvent_create evs eventId eventType email =
     (case required_string (castString eventId) of
        Inl e \<Rightarrow> Inl e
      | Inr i \<Rightarrow>
     (case required_string (castString eventType) of
        Inl e \<Rightarrow> Inl e
      | Inr t \<Rightarrow>
     (case optional_string email of
        Inl e \<Rightarrow> Inl e
      | Inr m \<Rightarrow>
          if i \<in> ze_eventId ` set evs then Inl DuplicateKey
          else Inr (evs @ [\<lparr>ze_eventId = i, ze_eventType = t, ze_email = m\<rparr>]))))"

subsection \<open>\<^verbatim>\<open>Contact\<close>: the local contact cache\<close>

text \<open>
  \<^verbatim>\<open>email\<close>: required, unique, \<^verbatim>\<open>lowercase\<close>, \<^verbatim>\<open>trim\<close>. \<^verbatim>\<open>ghlContactId\<close>: required.
  The other paths are optional strings; \<^verbatim>\<open>zoomRegistrantId\<close> is never written by the
  server and is left out. \<open>c_id\<close> is the document's \<^verbatim>\<open>_id\<close>.

  The \<^verbatim>\<open>required\<close> validators run when a document is created or saved; they do not run
  on \<^verbatim>\<open>updateOne\<close> or \<^verbatim>\<open>findOneAndUpdate\<close>, which is how a document without an email or
  without a \<^verbatim>\<open>ghlContactId\<close> can come to exist. The schema declares the index on
  \<^verbatim>\<open>email\<close> as \<^verbatim>\<open>unique\<close> and not as \<^verbatim>\<open>sparse\<close>: a document without the field is
  indexed under \<^verbatim>\<open>null\<close>, so the index admits at most one document without an email.
\<close>

record contact =
  c_id :: nat
  c_email :: "string option"
  c_ghlContactId :: "string option"
  c_firstName :: "string option"
  c_lastName :: "string option"
  c_phone :: "string option"
  c_locationId :: "string option"

text \<open>The setters of the \<^verbatim>\<open>email\<close> path (\<^verbatim>\<open>lowercase: true, trim: true\<close>), applied by every cast.\<close>

definition email_setter :: "string \<Rightarrow> string" where
  "email_setter s = toLowerCase (trim s)"

definition castEmail :: "json \<Rightarrow> db_error + string option" where
  "castEmail v = (case castString v of Inl e \<Rightarrow> Inl e | Inr s \<Rightarrow> Inr (map_option email_setter s))"

definition fresh_id :: "contact list \<Rightarrow> nat" where
  "fresh_id rows = Suc (fold max (map c_id rows) 0)"

text \<open>\<^verbatim>\<open>Contact.findOne({ email })\<close>\<close>

definition Contact_findOne :: "contact list \<Rightarrow> json \<Rightarrow> db_error + contact option" where
  "Contact_findOne rows email =
     (case cast_query castEmail email of
        Inl e \<Rightarrow> Inl e
      | Inr ks \<Rightarrow> Inr (find (\<lambda>c. c_email c \<in> set ks) rows))"

text \<open>
  \<^verbatim>\<open>Contact.create({ email, ghlContactId, firstName, lastName, phone, locationId })\<close>:
  validation, then the insert under the unique index on \<^verbatim>\<open>email\<close>.
\<close>

definition Contact_create ::
  "contact list \<Rightarrow> json \<Rightarrow> json \<Rightarrow> json \<Rightarrow> json \<Rightarrow> json \<Rightarrow> json \<Rightarrow> db_error + contact list" where
  "Contact_create rows email ghlContactId firstName lastName phone locationId =
     (case required_string (castEmail email) of
        Inl e \<Rightarrow> Inl e
      | Inr em \<Rightarrow>
     (case required_string (castString ghlContactId) of
        Inl e \<Rightarrow> Inl e
      | Inr gid \<Rightarrow>
     (case optional_string firstName of
        Inl e \<Rightarrow> Inl e
      | Inr fn \<Rightarrow>
     (case optional_string lastName of
        Inl e \<Rightarrow> Inl e
      | Inr ln \<Rightarrow>
     (case optional_string phone of
        Inl e \<Rightarrow> Inl e
      | Inr ph \<Rightarrow>
     (case optional_string locationId of
        Inl e \<Rightarrow> Inl e
      | Inr loc \<Rightarrow>
          if Some em \<in> c_email ` set rows then Inl DuplicateKey
          else Inr (rows @ [\<lparr>c_id = fresh_id rows, c_email = Some em, c_ghlContactId = Some gid,
                              c_firstName = fn, c_lastName = ln, c_phone = ph,
                              c_locationId = loc\<rparr>])))))))"

text \<open>The first document that satisfies \<open>P\<close> is replaced by its image under \<open>f\<close>.\<close>

fun update_first :: "('a \<Rightarrow> bool) \<Rightarrow> ('a \<Rightarrow> 'a) \<Rightarrow> 'a list \<Rightarrow> 'a list" where
  "update_first P f [] = []"
| "update_first P f (x # xs) = (if P x then f x # xs else x # update_first P f xs)"

text \<open>
  \<^verbatim>\<open>Contact.updateOne({ _id: contact._id }, { ghlContactId })\<close>: an \<^verbatim>\<open>undefined\<close> value is
  dropped from the update.
\<close>

definition Contact_updateOne :: "contact list \<Rightarrow> nat \<Rightarrow> json \<Rightarrow> db_error + contact list" where
  "Contact_updateOne rows i ghlContactId =
     (case castString ghlContactId of
        Inl e \<Rightarrow> Inl e
      | Inr gid \<Rightarrow>
          if ghlContactId = JUndefined then Inr rows
          else Inr (update_first (\<lambda>c. c_id c = i) (\<lambda>c. c\<lparr>c_ghlContactId := gid\<rparr>) rows))"

text \<open>
  \<^verbatim>\<open>Contact.findOneAndUpdate(filter, update, { new: true, upsert: true })\<close>, with the two
  filters the server uses and the update document it builds. A path whose value in the update
  is \<^verbatim>\<open>undefined\<close> is dropped from the update; \<^verbatim>\<open>null\<close> clears the path.
\<close>

datatype contact_filter = ByGhlContactId json | ByEmail json

record contact_update =
  u_ghlContactId :: json
  u_email :: json
  u_phone :: json
  u_firstName :: json
  u_lastName :: json
  u_locationId :: json

definition set_path :: "json \<Rightarrow> string option \<Rightarrow> string option \<Rightarrow> string option" where
  "set_path v new old = (if v = JUndefined then old else new)"

text \<open>
  The filter, \<^verbatim>\<open>{ ghlContactId: v }\<close> or \<^verbatim>\<open>{ email: v }\<close>, cast as \<open>cast_query\<close> does.
  The server passes the same \<open>v\<close> as a value of the update. With a condition of query
  operators for \<open>v\<close> the operation therefore throws, either when the filter is cast (a
  member that is no operator, such as \<^verbatim>\<open>_id\<close>) or when the update is cast (an object
  without \<^verbatim>\<open>_id\<close>); such a filter is refused here.
\<close>

definition cast_filter :: "contact_filter \<Rightarrow> db_error + (contact \<Rightarrow> bool)" where
  "cast_filter f =
     (case f of
        ByGhlContactId v \<Rightarrow>
          if query_operators v then Inl CastError
          else (case cast_query castString v of
                  Inl e \<Rightarrow> Inl e
                | Inr ks \<Rightarrow> Inr (\<lambda>c. c_ghlContactId c \<in> set ks))
      | ByEmail v \<Rightarrow>
          if query_operators v then Inl CastError
          else (case cast_query castEmail v of
                  Inl e \<Rightarrow> Inl e
                | Inr ks \<Rightarrow> Inr (\<lambda>c. c_email c \<in> set ks)))"

text \<open>
  The document an upsert starts from: the equality condition of the filter (an array, turned
  into \<^verbatim>\<open>$in\<close>, is none).
\<close>

definition filter_doc :: "contact_filter \<Rightarrow> nat \<Rightarrow> contact" where
  "filter_doc f i =
     (let blank = \<lparr>c_id = i, c_email = None, c_ghlContactId = None, c_firstName = None,
                   c_lastName = None, c_phone = None, c_locationId = None\<rparr>
      in case f of
           ByGhlContactId v \<Rightarrow>
             (case castString v of Inr k \<Rightarrow> blank\<lparr>c_ghlContactId := k\<rparr> | Inl e \<Rightarrow> blank)
         | ByEmail v \<Rightarrow>
             (case castEmail v of Inr k \<Rightarrow> blank\<lparr>c_email := k\<rparr> | Inl e \<Rightarrow> blank))"

definition cast_update :: "contact_update \<Rightarrow> db_error + (contact \<Rightarrow> contact)" where
  "cast_update u =
     (case castString (u_ghlContactId u) of Inl e \<Rightarrow> Inl e | Inr gid \<Rightarrow>
     (case castEmail (u_email u) of Inl e \<Rightarrow> Inl e | Inr em \<Rightarrow>
     (case castString (u_phone u) of Inl e \<Rightarrow> Inl e | Inr ph \<Rightarrow>
     (case castString (u_firstName u) of Inl e \<Rightarrow> Inl e | Inr fn \<Rightarrow>
     (case castString (u_lastName u) of Inl e \<Rightarrow> Inl e | Inr ln \<Rightarrow>
     (case castString (u_locationId u) of Inl e \<Rightarrow> Inl e | Inr loc \<Rightarrow>
        Inr (\<lambda>c. c\<lparr>c_ghlContactId := set_path (u_ghlContactId u) gid (c_ghlContactId c),
                    c_email := set_path (u_email u) em (c_email c),
                    c_phone := set_path (u_phone u) ph (c_phone c),
                    c_firstName := set_path (u_firstName u) fn (c_firstName c),
                    c_lastName := set_path (u_lastName u) ln (c_lastName c),
                    c_locationId := set_path (u_locationId u) loc (c_locationId c)\<rparr>)))))))"

definition Contact_findOneAndUpdate ::
  "contact list \<Rightarrow> contact_filter \<Rightarrow> contact_update \<Rightarrow> db_error + contact list" where
  "Contact_findOneAndUpdate rows f u =
     (case cast_filter f of Inl e \<Rightarrow> Inl e | Inr matches \<Rightarrow>
     (case cast_update u of Inl e \<Rightarrow> Inl e | Inr apply_update \<Rightarrow>
     (case find matches rows of
        Some c \<Rightarrow>
          if c_email (apply_update c) \<noteq> c_email c
             \<and> c_email (apply_update c) \<in> c_email ` set rows
          then Inl DuplicateKey
          else Inr (update_first matches apply_update rows)
      | None \<Rightarrow>
          (let doc = apply_update (filter_doc f (fresh_id rows))
           in if c_email doc \<in> c_email ` set rows then Inl DuplicateKey
              else Inr (rows @ [doc])))))"

subsection \<open>\<^verbatim>\<open>Settings\<close> and the database\<close>

text \<open>
  The server uses one key of \<^verbatim>\<open>Settings\<close>, \<^verbatim>\<open>globalZoomTag\<close>; its value is of type
  \<^verbatim>\<open>Mixed\<close>. \<open>None\<close>: no document with that key.
\<close>

record db =
  ledger :: "zoom_event list"
  contacts :: "contact list"
  globalZoomTag :: "json option"

text \<open>\<^verbatim>\<open>a !== b\<close> is false only for two equal primitive values.\<close>

fun primitive :: "json \<Rightarrow> bool" where
  "primitive (JArr xs) = False"
| "primitive (JObj kvs) = False"
| "primitive v = True"

definition strict_neq :: "json \<Rightarrow> json \<Rightarrow> bool" where
  "strict_neq a b = (\<not> (primitive a \<and> a = b))"


section \<open>The process environment and the remote platform\<close>

text \<open>
  Everything the handlers read from outside the database: the variables of
  \<^verbatim>\<open>process.env\<close>, the two library functions of the signature check
  (\<^verbatim>\<open>crypto.createHmac('sha256', key).update(msg).digest('hex')\<close> and
  \<^verbatim>\<open>JSON.stringify\<close>), the answers of the remote contact API to the four requests
  \<^verbatim>\<open>ghlAxios\<close> sends, and the clock. \<^verbatim>\<open>axios\<close> resolves with the response on a 2xx
  status and rejects otherwise.
\<close>

datatype http_result =
    HttpOk json
  | HttpError nat json
  | NetworkError

record utc =
  utcFullYear :: nat
  utcMonth :: nat
  utcDate :: nat
  utcHours :: nat
  utcMinutes :: nat
  utcSeconds :: nat

record world =
  ZOOM_SECRET_TOKEN :: "string option"
  VERIFY_ZOOM_SIGNATURE :: "string option"
  GHL_LOCATION_ID :: "string option"
  GHL_WORKFLOW_ID :: "string option"
  hmac_sha256_hex :: "string \<Rightarrow> string \<Rightarrow> string"
  json_stringify :: "json \<Rightarrow> string"
  ghl_get_contacts :: "json \<Rightarrow> http_result"
  ghl_post_contacts :: "json \<Rightarrow> http_result"
  ghl_post_tags :: "json \<Rightarrow> json list \<Rightarrow> http_result"
  ghl_post_workflow :: "json \<Rightarrow> string \<Rightarrow> string \<Rightarrow> http_result"
  now :: utc

text \<open>The requests sent to the remote platform, in the order they are sent.\<close>

datatype ghl_call =
    SearchContact json
  | CreateContact json
  | AddTags json "json list"
  | AddToWorkflow json string string

text \<open>
  What a helper throws: an axios error that carries a response (\<^verbatim>\<open>error.response.status\<close>,
  \<^verbatim>\<open>error.response.data\<close>), or an error without one (no answer from the network, or a
  TypeError raised while reading the answer).
\<close>

datatype js_error = HttpFailure nat json | OtherError

text \<open>
  \<^verbatim>\<open>ghlAxios\<close>: a request is sent, and the remote platform's answer comes back. The
  result is the answer together with the request that went out.
\<close>

definition ghlAxios :: "world \<Rightarrow> ghl_call \<Rightarrow> http_result \<times> ghl_call list" where
  "ghlAxios w request =
     ((case request of
         SearchContact email \<Rightarrow> ghl_get_contacts w email
       | CreateContact payload \<Rightarrow> ghl_post_contacts w payload
       | AddTags contactId tags \<Rightarrow> ghl_post_tags w contactId tags
       | AddToWorkflow contactId workflowId eventStartTime \<Rightarrow>
           ghl_post_workflow w contactId workflowId eventStartTime),
      [request])"

subsection \<open>\<^verbatim>\<open>searchGHLContact\<close>, \<^verbatim>\<open>createGHLContact\<close>, \<^verbatim>\<open>addGHLTags\<close>\<close>

text \<open>Each helper gives what it returns or throws, and the requests it sent.\<close>

definition searchGHLContact :: "world \<Rightarrow> json \<Rightarrow> (js_error + json) \<times> ghl_call list" where
  "searchGHLContact w email =
     (case ghlAxios w (SearchContact email) of
        (HttpOk data, sent) \<Rightarrow>
          (if nullish data then Inl OtherError
           else Inr (js_or (index0 (get_prop data ''contacts'')) JNull), sent)
      | (HttpError st d, sent) \<Rightarrow> (if st = 404 then Inr JNull else Inl (HttpFailure st d), sent)
      | (NetworkError, sent) \<Rightarrow> (Inl OtherError, sent))"

definition create_payload :: "world \<Rightarrow> json \<Rightarrow> json" where
  "create_payload w registrant =
     JObj [(''email'', get_prop registrant ''email''),
           (''firstName'', get_prop registrant ''first_name''),
           (''lastName'', get_prop registrant ''last_name''),
           (''phone'', get_prop registrant ''phone''),
           (''locationId'', of_opt (GHL_LOCATION_ID w)),
           (''source'', JStr ''Zoom Integration'')]"

definition createGHLContact :: "world \<Rightarrow> json \<Rightarrow> (js_error + json) \<times> ghl_call list" where
  "createGHLContact w registrant =
     (case ghlAxios w (CreateContact (create_payload w registrant)) of
        (HttpOk data, sent) \<Rightarrow>
          (if nullish data then Inl OtherError else Inr (get_prop data ''contact''), sent)
      | (HttpError st d, sent) \<Rightarrow> (Inl (HttpFailure st d), sent)
      | (NetworkError, sent) \<Rightarrow> (Inl OtherError, sent))"

definition addGHLTags :: "world \<Rightarrow> json \<Rightarrow> json list \<Rightarrow> (js_error + json) \<times> ghl_call list" where
  "addGHLTags w contactId tags =
     (case ghlAxios w (AddTags contactId tags) of
        (HttpOk data, sent) \<Rightarrow> (Inr data, sent)
      | (HttpError st d, sent) \<Rightarrow> (Inl (HttpFailure st d), sent)
      | (NetworkError, sent) \<Rightarrow> (Inl OtherError, sent))"

subsection \<open>\<^verbatim>\<open>addContactToWorkflow\<close>\<close>

text \<open>\<^verbatim>\<open>const pad = (n) => (n < 10 ? '0' + n : n)\<close>, rendered inside the template literal.\<close>

definition pad :: "nat \<Rightarrow> string" where
  "pad n = (if n < 10 then ''0'' @ show_nat n else show_nat n)"

definition eventStartTime :: "utc \<Rightarrow> string" where
  "eventStartTime t =
     show_nat (utcFullYear t) @ ''-'' @ pad (utcMonth t + 1) @ ''-'' @ pad (utcDate t)
       @ ''T'' @ pad (utcHours t) @ '':'' @ pad (utcMinutes t) @ '':'' @ pad (utcSeconds t)
       @ ''+00:00''"

text \<open>The function reads the clock, formats the time and posts it; it rethrows what the post throws.\<close>

definition addContactToWorkflow ::
  "world \<Rightarrow> json \<Rightarrow> string \<Rightarrow> (js_error + json) \<times> ghl_call list" where
  "addContactToWorkflow w contactId workflowId =
     (case ghlAxios w (AddToWorkflow contactId workflowId (eventStartTime (now w))) of
        (HttpOk data, sent) \<Rightarrow> (Inr data, sent)
      | (HttpError st d, sent) \<Rightarrow> (Inl (HttpFailure st d), sent)
      | (NetworkError, sent) \<Rightarrow> (Inl OtherError, sent))"

section \<open>\<^verbatim>\<open>handleRegistrationEvent\<close>\<close>

text \<open>
  The function is one \<^verbatim>\<open>try\<close> block of seven numbered steps. It is embedded as the
  composition of its steps: the email clean-up before the block, the remote part of the
  resolution (steps 2 and 3), the local save (step 4), the resolution as a whole (steps 1
  to 4), and tagging with the workflow trigger (steps 5 to 7). The function returns no
  value, and every exception of a step ends in the \<^verbatim>\<open>catch\<close> of the block, which only logs
  it (before the block, the one statement that can throw is the log line that prints the
  email and the phone, on a value that \<open>js_toString\<close> does not cover). Its result here is
  the database it leaves and the requests it sent.
  Its second parameter, \<^verbatim>\<open>eventType\<close>, is not read by the function and is left out.
\<close>

text \<open>
  \<^verbatim>\<open>let email = registrant.email || ''; if (typeof email === 'string') email = email.trim().toLowerCase();\<close>
\<close>

definition normalize_email :: "json \<Rightarrow> json" where
  "normalize_email raw =
     (case js_or raw (JStr []) of
        JStr s \<Rightarrow> JStr (toLowerCase (trim s))
      | v \<Rightarrow> v)"

text \<open>
  Steps 2 and 3: search the remote platform, create the contact when the search gave nothing,
  recover the id from a 400 answer that carries one. \<open>None\<close>: the function returns
  (``Could not resolve GHL Contact ID. Skipping tagging.'').
\<close>

definition resolveRemoteId :: "world \<Rightarrow> json \<Rightarrow> json \<Rightarrow> json option \<times> ghl_call list" where
  "resolveRemoteId w registrant email =
     (case searchGHLContact w email of
        (found, searched) \<Rightarrow>
          (let ghlContact = (case found of Inl err \<Rightarrow> JNull | Inr c \<Rightarrow> c)
           in if truthy ghlContact then (Some (get_prop ghlContact ''id''), searched)
              else
                (case createGHLContact w registrant of
                   (Inr newContact, created) \<Rightarrow>
                     if nullish newContact then (None, searched @ created)
                     else (Some (get_prop newContact ''id''), searched @ created)
                 | (Inl (HttpFailure st d), created) \<Rightarrow>
                     if st = 400 \<and> truthy (get_prop (get_prop d ''meta'') ''contactId'')
                     then (Some (get_prop (get_prop d ''meta'') ''contactId''), searched @ created)
                     else (None, searched @ created)
                 | (Inl OtherError, created) \<Rightarrow> (None, searched @ created))))"

text \<open>Step 4: save or update the local record, only if there is an id.\<close>

definition saveContactLink ::
  "world \<Rightarrow> contact list \<Rightarrow> contact option \<Rightarrow> json \<Rightarrow> json \<Rightarrow> json \<Rightarrow> db_error + contact list" where
  "saveContactLink w rows contact registrant email ghlContactId =
     (if truthy ghlContactId then
        (case contact of
           Some c \<Rightarrow> Contact_updateOne rows (c_id c) ghlContactId
         | None \<Rightarrow>
             Contact_create rows email ghlContactId
               (get_prop registrant ''first_name'') (get_prop registrant ''last_name'')
               (get_prop registrant ''phone'') (of_opt (GHL_LOCATION_ID w)))
      else Inr rows)"

text \<open>
  Steps 1 to 4. \<open>Proceed\<close>: the function goes on to step 5 with this \<^verbatim>\<open>ghlContactId\<close> and
  these contact records. \<open>Abort\<close>: it returns, or an exception reached its \<^verbatim>\<open>catch\<close>; the
  contact records are as they were.
\<close>

datatype resolution =
    Proceed json "contact list" "ghl_call list"
  | Abort "ghl_call list"

fun calls_of :: "resolution \<Rightarrow> ghl_call list" where
  "calls_of (Proceed ghlContactId rows calls) = calls"
| "calls_of (Abort calls) = calls"

definition resolveContact :: "world \<Rightarrow> contact list \<Rightarrow> json \<Rightarrow> json \<Rightarrow> resolution" where
  "resolveContact w rows registrant email =
     (case Contact_findOne rows email of
        Inl e \<Rightarrow> Abort []
      | Inr contact \<Rightarrow>
          (let ghlContactId =
                 (case contact of None \<Rightarrow> JUndefined | Some c \<Rightarrow> of_opt (c_ghlContactId c))
           in if contact = None \<or> \<not> truthy ghlContactId then
                (case resolveRemoteId w registrant email of
                   (None, calls) \<Rightarrow> Abort calls
                 | (Some gid, calls) \<Rightarrow>
                     (case saveContactLink w rows contact registrant email gid of
                        Inl e \<Rightarrow> Abort calls
                      | Inr rows' \<Rightarrow> Proceed gid rows' calls))
              else Proceed ghlContactId rows []))"

text \<open>
  A local record is linked when it carries a remote contact id: the test
  \<^verbatim>\<open>contact.ghlContactId\<close> of step 2.
\<close>

definition linked :: "contact \<Rightarrow> bool" where
  "linked c = truthy (of_opt (c_ghlContactId c))"

text \<open>Step 5: the global tag, read from \<^verbatim>\<open>Settings\<close>, or the default.\<close>

definition globalTag :: "json option \<Rightarrow> json" where
  "globalTag setting =
     js_or (case setting of None \<Rightarrow> JUndefined | Some v \<Rightarrow> v) (JStr ''Zoom Registration'')"

definition registration_tags :: "json option \<Rightarrow> json list" where
  "registration_tags setting = [globalTag setting, JStr ''zoom registered'']"

text \<open>
  Steps 6 and 7: add the tags; then, if \<^verbatim>\<open>GHL_WORKFLOW_ID\<close> is set, trigger the workflow
  inside a \<^verbatim>\<open>try\<close> of its own. A failure of the tag request reaches the outer \<^verbatim>\<open>catch\<close>.
\<close>

definition applyAutomation :: "world \<Rightarrow> json option \<Rightarrow> json \<Rightarrow> ghl_call list" where
  "applyAutomation w setting ghlContactId =
     (case addGHLTags w ghlContactId (registration_tags setting) of
        (Inl e, tagged) \<Rightarrow> tagged
      | (Inr ok, tagged) \<Rightarrow>
          (case GHL_WORKFLOW_ID w of
             None \<Rightarrow> tagged
           | Some workflowId \<Rightarrow>
               if workflowId = [] then tagged
               else (case addContactToWorkflow w ghlContactId workflowId of
                       (Inl wfError, enrolled) \<Rightarrow> tagged @ enrolled
                     | (Inr ok', enrolled) \<Rightarrow> tagged @ enrolled)))"

definition handleRegistrationEvent :: "world \<Rightarrow> json \<Rightarrow> db \<Rightarrow> db \<times> ghl_call list" where
  "handleRegistrationEvent w payload d =
     (let objectData = get_prop payload ''object''
      in if \<not> truthy objectData then (d, [])
         else
           (let registrant = js_or (get_prop objectData ''registrant'') objectData;
                email = normalize_email (get_prop registrant ''email'')
            in if \<not> truthy email then (d, [])
               else
                 (case resolveContact w (contacts d) registrant email of
                    Abort calls \<Rightarrow> (d, calls)
                  | Proceed ghlContactId rows calls \<Rightarrow>
                      (d\<lparr>contacts := rows\<rparr>,
                       calls @ applyAutomation w (globalZoomTag d) ghlContactId))))"


section \<open>The two webhook endpoints\<close>

record response =
  status :: nat
  body :: json

definition internal_server_error :: response where
  "internal_server_error = \<lparr>status = 500, body = JObj [(''error'', JStr ''Internal server error'')]\<rparr>"

subsection \<open>\<^verbatim>\<open>POST /zoom-webhook\<close>\<close>

record zoom_request =
  x_zm_signature :: "string option"
  x_zm_request_timestamp :: "string option"
  req_body :: json

text \<open>\<^verbatim>\<open>verifyZoomSignature\<close>\<close>

definition verifyZoomSignature :: "world \<Rightarrow> zoom_request \<Rightarrow> bool" where
  "verifyZoomSignature w req =
     (case (x_zm_signature req, x_zm_request_timestamp req, ZOOM_SECRET_TOKEN w) of
        (Some signature, Some timestamp, Some zoomSecretToken) \<Rightarrow>
          if signature = [] \<or> timestamp = [] \<or> zoomSecretToken = [] then False
          else signature = ''v0='' @ hmac_sha256_hex w zoomSecretToken
                                      (''v0:'' @ timestamp @ '':'' @ json_stringify w (req_body req))
      | _ \<Rightarrow> False)"

text \<open>
  \<^verbatim>\<open>const registrantEmail = payload?.object?.registrant?.email || payload?.object?.email\<close>
\<close>

definition registrantEmail :: "json \<Rightarrow> json" where
  "registrantEmail payload =
     js_or (get_prop (get_prop (get_prop payload ''object'') ''registrant'') ''email'')
           (get_prop (get_prop payload ''object'') ''email'')"

text \<open>
  The idempotency key of the handler: the timestamp header by default, the composite
  \<^verbatim>\<open>`${meetingId}_${registrantEmail}_${event}`\<close> when the payload has a meeting id and a
  registrant email, else the \<^verbatim>\<open>uuid\<close> of the payload's object when it has one.
\<close>

definition deriveEventId :: "string option \<Rightarrow> json \<Rightarrow> json \<Rightarrow> json" where
  "deriveEventId timestamp payload event =
     (let meetingId = get_prop (get_prop payload ''object'') ''id''
      in if truthy meetingId \<and> truthy (registrantEmail payload) then
           JStr (js_toString meetingId @ ''_'' @ js_toString (registrantEmail payload)
                   @ ''_'' @ js_toString event)
         else if truthy (get_prop (get_prop payload ''object'') ''uuid'') then
           get_prop (get_prop payload ''object'') ''uuid''
         else of_opt timestamp)"

text \<open>The end of the handler: the registration events are processed, the others only logged.\<close>

definition is_registration_event :: "json \<Rightarrow> bool" where
  "is_registration_event event =
     (event = JStr ''webinar.registration_created'' \<or> event = JStr ''meeting.registration_created'')"

definition process_event :: "world \<Rightarrow> json \<Rightarrow> json \<Rightarrow> db \<Rightarrow> response \<times> db \<times> ghl_call list" where
  "process_event w event payload d =
     (let received = \<lparr>status = 200, body = JObj [(''message'', JStr ''Webhook received'')]\<rparr>
      in if is_registration_event event
         then (case handleRegistrationEvent w payload d of (d', calls) \<Rightarrow> (received, d', calls))
         else (received, d, []))"

text \<open>
  The handler from \<^verbatim>\<open>ZoomEvent.create\<close> on: what runs once \<^verbatim>\<open>ZoomEvent.findOne\<close> has
  found no entry. An exception of the insert reaches the handler's \<^verbatim>\<open>catch\<close>.
\<close>

definition record_and_process ::
  "world \<Rightarrow> json \<Rightarrow> json \<Rightarrow> json \<Rightarrow> db \<Rightarrow> response \<times> db \<times> ghl_call list" where
  "record_and_process w eventId event payload d =
     (case ZoomEvent_create (ledger d) eventId event (registrantEmail payload) of
        Inl e \<Rightarrow> (internal_server_error, d, [])
      | Inr evs \<Rightarrow> process_event w event payload (d\<lparr>ledger := evs\<rparr>))"

text \<open>
  The idempotency check and what follows it: a known event id answers ``Duplicate event'';
  an unknown one is recorded and the event processed; without an event id the event is
  processed unrecorded. An exception of the lookup reaches the handler's \<^verbatim>\<open>catch\<close>.
\<close>

definition check_and_process ::
  "world \<Rightarrow> json \<Rightarrow> json \<Rightarrow> json \<Rightarrow> db \<Rightarrow> response \<times> db \<times> ghl_call list" where
  "check_and_process w eventId event payload d =
     (if truthy eventId then
        (case ZoomEvent_findOne (ledger d) eventId of
           Inl e \<Rightarrow> (internal_server_error, d, [])
         | Inr (Some existingEvent) \<Rightarrow>
             (\<lparr>status = 200, body = JObj [(''message'', JStr ''Duplicate event'')]\<rparr>, d, [])
         | Inr None \<Rightarrow> record_and_process w eventId event payload d)
      else process_event w event payload d)"

text \<open>\<^verbatim>\<open>const { event, payload } = req.body\<close> and the event id of a request.\<close>

definition req_event :: "zoom_request \<Rightarrow> json" where
  "req_event req = get_prop (req_body req) ''event''"

definition req_payload :: "zoom_request \<Rightarrow> json" where
  "req_payload req = get_prop (req_body req) ''payload''"

definition req_eventId :: "zoom_request \<Rightarrow> json" where
  "req_eventId req = deriveEventId (x_zm_request_timestamp req) (req_payload req) (req_event req)"

text \<open>
  The handler. Destructuring a body that is \<^verbatim>\<open>undefined\<close> or \<^verbatim>\<open>null\<close> throws, and so
  does \<^verbatim>\<open>hmac.update\<close> on a token that is not a string; both reach the \<^verbatim>\<open>catch\<close>.
\<close>

definition zoom_webhook :: "world \<Rightarrow> zoom_request \<Rightarrow> db \<Rightarrow> response \<times> db \<times> ghl_call list" where
  "zoom_webhook w req d =
     (if nullish (req_body req) then (internal_server_error, d, [])
      else if req_event req = JStr ''endpoint.url_validation'' then
        (let plainToken = get_prop (req_payload req) ''plainToken''
         in if \<not> truthy plainToken \<or> \<not> truthy (of_opt (ZOOM_SECRET_TOKEN w)) then
              (\<lparr>status = 400,
                body = JObj [(''error'', JStr ''Missing token or configuration'')]\<rparr>, d, [])
            else
              (case (plainToken, ZOOM_SECRET_TOKEN w) of
                 (JStr token, Some zoomSecretToken) \<Rightarrow>
                   (\<lparr>status = 200,
                     body = JObj [(''plainToken'', plainToken),
                                  (''encryptedToken'',
                                   JStr (hmac_sha256_hex w zoomSecretToken token))]\<rparr>, d, [])
               | _ \<Rightarrow> (internal_server_error, d, [])))
      else if VERIFY_ZOOM_SIGNATURE w = Some ''true'' \<and> \<not> verifyZoomSignature w req then
        (\<lparr>status = 401, body = JObj [(''error'', JStr ''Invalid signature'')]\<rparr>, d, [])
      else check_and_process w (req_eventId req) (req_event req) (req_payload req) d)"

subsection \<open>\<^verbatim>\<open>POST /ghl-webhook\<close>\<close>

text \<open>
  \<^verbatim>\<open>if (typeof email === 'string' && email.trim() === '') email = undefined\<close>
\<close>

definition sanitize_email :: "json \<Rightarrow> json" where
  "sanitize_email email =
     (case email of
        JStr s \<Rightarrow> if trim s = [] then JUndefined else JStr s
      | v \<Rightarrow> v)"

text \<open>The global tag logic: the setting is written when there is none or its value differs.\<close>

definition update_global_tag :: "json \<Rightarrow> json option \<Rightarrow> json option" where
  "update_global_tag zoom_tag currentSetting =
     (if truthy zoom_tag then
        (case currentSetting of
           None \<Rightarrow> Some zoom_tag
         | Some v \<Rightarrow> if strict_neq v zoom_tag then Some zoom_tag else Some v)
      else currentSetting)"

definition ghl_webhook :: "world \<Rightarrow> json \<Rightarrow> db \<Rightarrow> response \<times> db" where
  "ghl_webhook w data d =
     (if nullish data then (internal_server_error, d)
      else
        (let payload = js_or (get_prop data ''customData'') data;
             contactId = get_prop payload ''contactId'';
             email = sanitize_email (get_prop payload ''email'')
         in if \<not> truthy email \<and> \<not> truthy contactId then
              (\<lparr>status = 400, body = JObj [(''error'', JStr ''Missing email or contactId'')]\<rparr>, d)
            else
              (let d1 = d\<lparr>globalZoomTag :=
                           update_global_tag (get_prop payload ''zoom_tag'') (globalZoomTag d)\<rparr>;
                   update = \<lparr>u_ghlContactId = contactId,
                             u_email = email,
                             u_phone = get_prop payload ''phone'',
                             u_firstName = get_prop payload ''firstName'',
                             u_lastName = get_prop payload ''lastName'',
                             u_locationId = js_or (get_prop payload ''locationId'')
                                                  (of_opt (GHL_LOCATION_ID w))\<rparr>
               in case Contact_findOneAndUpdate (contacts d1)
                         (if truthy contactId then ByGhlContactId contactId else ByEmail email)
                         update of
                    Inl e \<Rightarrow> (internal_server_error, d1)
                  | Inr rows \<Rightarrow>
                      (\<lparr>status = 200, body = JObj [(''message'', JStr ''Contact synced'')]\<rparr>,
                       d1\<lparr>contacts := rows\<rparr>))))"


section \<open>The unique indexes as an invariant\<close>

text \<open>
  What the indexes of the \<^verbatim>\<open>Contact\<close> collection guarantee of its content: no two
  documents share an \<^verbatim>\<open>_id\<close>, and no two share an email, a missing email counting as a
  value.
\<close>

definition contacts_ok :: "contact list \<Rightarrow> bool" where
  "contacts_ok rows = (distinct (map c_id rows) \<and> distinct (map c_email rows))"

section \<open>Sample deliveries\<close>

text \<open>Concrete requests, used to run the handlers in the theorems below.\<close>

definition registrant_of :: "string \<Rightarrow> json" where
  "registrant_of email =
     JObj [(''email'', JStr email), (''first_name'', JStr ''Ann''), (''last_name'', JStr ''Lee'')]"

definition registration_payload :: "int \<Rightarrow> string \<Rightarrow> json" where
  "registration_payload meetingId email =
     JObj [(''object'',
            JObj [(''id'', JNum meetingId), (''uuid'', JStr ''m-uuid-1''),
                  (''registrant'', registrant_of email)])]"

definition payload_without_email :: json where
  "payload_without_email = JObj [(''object'', JObj [(''id'', JNum 555), (''uuid'', JStr ''m-uuid-1'')])]"

definition payload_bare :: json where
  "payload_bare = JObj [(''object'', JObj [])]"

definition webinar_registration :: json where
  "webinar_registration = JStr ''webinar.registration_created''"

definition sample_world :: world where
  "sample_world =
     \<lparr>ZOOM_SECRET_TOKEN = Some ''secret'',
      VERIFY_ZOOM_SIGNATURE = None,
      GHL_LOCATION_ID = Some ''loc-1'',
      GHL_WORKFLOW_ID = Some ''wf-1'',
      hmac_sha256_hex = (\<lambda>key msg. ''00''),
      json_stringify = (\<lambda>v. ''{}''),
      ghl_get_contacts = (\<lambda>email. HttpOk (JObj [(''contacts'', JArr [])])),
      ghl_post_contacts =
        (\<lambda>payload. HttpOk (JObj [(''contact'', JObj [(''id'', JStr ''ghl-1'')])])),
      ghl_post_tags = (\<lambda>contactId tags. HttpOk (JObj [])),
      ghl_post_workflow = (\<lambda>contactId workflowId eventStartTime. HttpOk (JObj [])),
      now = \<lparr>utcFullYear = 2026, utcMonth = 0, utcDate = 5, utcHours = 13, utcMinutes = 7,
              utcSeconds = 59\<rparr>\<rparr>"

definition empty_db :: db where
  "empty_db = \<lparr>ledger = [], contacts = [], globalZoomTag = None\<rparr>"

definition registration_request :: "string \<Rightarrow> int \<Rightarrow> string \<Rightarrow> zoom_request" where
  "registration_request timestamp meetingId email =
     \<lparr>x_zm_signature = None, x_zm_request_timestamp = Some timestamp,
      req_body = JObj [(''event'', webinar_registration),
                       (''payload'', registration_payload meetingId email)]\<rparr>"

text \<open>
  A remote platform whose search is forbidden and whose creation answers that the contact
  exists.
\<close>

definition forbidden_world :: world where
  "forbidden_world =
     sample_world
       \<lparr>ghl_get_contacts := (\<lambda>email. HttpError 403 (JObj [(''message'', JStr ''Forbidden'')])),
        ghl_post_contacts :=
          (\<lambda>payload. HttpError 400 (JObj [(''meta'', JObj [(''contactId'', JStr ''ghl-9'')])]))\<rparr>"

text \<open>A configuration event with only an email, and the contact record it leaves.\<close>

definition email_only_config :: json where
  "email_only_config = JObj [(''email'', JStr ''Ann@X.com'')]"

definition unlinked_rows :: "contact list" where
  "unlinked_rows =
     [\<lparr>c_id = 1, c_email = Some ''ann@x.com'', c_ghlContactId = None, c_firstName = None,
       c_lastName = None, c_phone = None, c_locationId = Some ''loc-1''\<rparr>]"

definition linked_rows :: "contact list" where
  "linked_rows =
     [\<lparr>c_id = 1, c_email = Some ''ann@x.com'', c_ghlContactId = Some ''ghl-1'',
       c_firstName = None, c_lastName = None, c_phone = None, c_locationId = Some ''loc-1''\<rparr>]"

text \<open>The database after the registration of \<open>ann@x.com\<close> for meeting 555 was processed.\<close>

definition db_after_ann :: db where
  "db_after_ann =
     \<lparr>ledger = [\<lparr>ze_eventId = ''555_ann@x.com_webinar.registration_created'',
                  ze_eventType = ''webinar.registration_created'',
                  ze_email = Some ''ann@x.com''\<rparr>],
      contacts = [\<lparr>c_id = 1, c_email = Some ''ann@x.com'', c_ghlContactId = Some ''ghl-1'',
                    c_firstName = Some ''Ann'', c_lastName = Some ''Lee'', c_phone = None,
                    c_locationId = Some ''loc-1''\<rparr>],
      globalZoomTag = None\<rparr>"

text \<open>The database after the configuration event for contact \<open>c1\<close> (empty email) was processed.\<close>

definition db_after_c1 :: db where
  "db_after_c1 =
     \<lparr>ledger = [],
      contacts = [\<lparr>c_id = 1, c_email = None, c_ghlContactId = Some ''c1'', c_firstName = None,
                    c_lastName = None, c_phone = None, c_locationId = Some ''loc-1''\<rparr>],
      globalZoomTag = Some (JStr ''Promo'')\<rparr>"

text \<open>A delivery without an event type.\<close>

definition untyped_request :: zoom_request where
  "untyped_request =
     \<lparr>x_zm_signature = None, x_zm_request_timestamp = Some ''1700000000'',
      req_body = JObj [(''payload'', payload_without_email)]\<rparr>"

text \<open>A configuration event with a contact id, an empty email and a tag.\<close>

definition config_event :: "string \<Rightarrow> json" where
  "config_event contactId =
     JObj [(''contactId'', JStr contactId), (''email'', JStr []), (''zoom_tag'', JStr ''Promo'')]"

text \<open>A remote platform that refuses the tag request.\<close>

definition untaggable_world :: world where
  "untaggable_world =
     sample_world
       \<lparr>ghl_post_tags :=
          (\<lambda>contactId tags. HttpError 422 (JObj [(''message'', JStr ''Unprocessable'')]))\<rparr>"

text \<open>
  A remote platform that answers no request, and the database a registration leaves when it
  is processed against it.
\<close>

definition outage_world :: world where
  "outage_world =
     sample_world
       \<lparr>ghl_get_contacts := (\<lambda>email. NetworkError),
        ghl_post_contacts := (\<lambda>payload. NetworkError),
        ghl_post_tags := (\<lambda>contactId tags. NetworkError),
        ghl_post_workflow := (\<lambda>contactId workflowId eventStartTime. NetworkError)\<rparr>"

definition db_after_outage :: db where
  "db_after_outage =
     \<lparr>ledger = [\<lparr>ze_eventId = ''555_ann@x.com_webinar.registration_created'',
                  ze_eventType = ''webinar.registration_created'',
                  ze_email = Some ''ann@x.com''\<rparr>],
      contacts = [],
      globalZoomTag = None\<rparr>"

section \<open>Strings: rendering and normalisation\<close>

declare show_nat.simps [simp del]

lemma of_char_digit_char: "d < 10 \<Longrightarrow> of_char (digit_char d) = (48 + d :: nat)"
  by (simp add: digit_char_def)

lemma digit_char_range: "d < 10 \<Longrightarrow> (48::nat) \<le> of_char (digit_char d) \<and> of_char (digit_char d) \<le> (57::nat)"
  by (simp add: of_char_digit_char)

lemma show_nat_chars: "c \<in> set (show_nat n) \<Longrightarrow> (48::nat) \<le> of_char c \<and> of_char c \<le> (57::nat)"
proof (induction n rule: show_nat.induct)
  case (1 n)
  show ?case
  proof (cases "n < 10")
    case True
    with 1(2) have "c = digit_char n" by (simp add: show_nat.simps)
    with True show ?thesis using digit_char_range by blast
  next
    case False
    with 1(2) have "c \<in> set (show_nat (n div 10)) \<or> c = digit_char (n mod 10)"
      by (auto simp add: show_nat.simps[of n])
    then show ?thesis
    proof
      assume "c \<in> set (show_nat (n div 10))"
      with 1(1) False show ?thesis by blast
    next
      assume "c = digit_char (n mod 10)"
      then show ?thesis using digit_char_range[of "n mod 10"] by simp
    qed
  qed
qed

lemma show_nat_nonempty: "show_nat n \<noteq> []"
  by (subst show_nat.simps) simp

lemma show_int_nonempty: "show_int i \<noteq> []"
  by (simp add: show_int_def show_nat_nonempty)

lemma pad_chars: "c \<in> set (pad n) \<Longrightarrow> (48::nat) \<le> of_char c \<and> of_char c \<le> (57::nat)"
  using show_nat_chars by (auto simp: pad_def split: if_splits)

lemma Z_not_digit: "\<not> ((48::nat) \<le> of_char (CHR ''Z'') \<and> of_char (CHR ''Z'') \<le> (57::nat))"
  by simp

lemma eventStartTime_no_Z: "CHR ''Z'' \<notin> set (eventStartTime t)"
proof
  assume "CHR ''Z'' \<in> set (eventStartTime t)"
  then have "CHR ''Z'' \<in> set (show_nat (utcFullYear t)) \<or> CHR ''Z'' \<in> set (pad (utcMonth t + 1))
     \<or> CHR ''Z'' \<in> set (pad (utcDate t)) \<or> CHR ''Z'' \<in> set (pad (utcHours t))
     \<or> CHR ''Z'' \<in> set (pad (utcMinutes t)) \<or> CHR ''Z'' \<in> set (pad (utcSeconds t))"
    by (auto simp: eventStartTime_def)
  then show False using show_nat_chars pad_chars Z_not_digit by blast
qed

lemma of_char_lower_char:
  "of_char (lower_char c) = (if is_upper (of_char c) then of_char c + 32 else (of_char c :: nat))"
  by (auto simp add: lower_char_def is_upper_def Let_def)

lemma lower_char_idem: "lower_char (lower_char c) = lower_char c"
proof -
  have "\<not> is_upper (of_char (lower_char c))"
    by (auto simp add: of_char_lower_char is_upper_def)
  then show ?thesis by (auto simp add: lower_char_def[of "lower_char c"] Let_def)
qed

lemma is_space_lower_char: "is_space (lower_char c) = is_space c"
  by (auto simp add: is_space_def of_char_lower_char is_upper_def)

lemma toLowerCase_idem: "toLowerCase (toLowerCase s) = toLowerCase s"
  by (simp add: toLowerCase_def lower_char_idem)

lemma dropWhile_space_lower: "dropWhile is_space (map lower_char s) = map lower_char (dropWhile is_space s)"
  by (induction s) (simp_all add: is_space_lower_char)

lemma trim_toLowerCase: "trim (toLowerCase s) = toLowerCase (trim s)"
  by (simp add: trim_def toLowerCase_def dropWhile_space_lower rev_map)

lemma dropWhile_rev_dropWhile:
  "dropWhile P (rev (dropWhile P (rev (dropWhile P s)))) = rev (dropWhile P (rev (dropWhile P s)))"
proof (cases "rev (dropWhile P (rev (dropWhile P s))) = []")
  case True
  then show ?thesis by (metis dropWhile.simps(1))
next
  case False
  let ?t = "dropWhile P s"
  from False have ne: "?t \<noteq> []" by (metis dropWhile.simps(1) rev.simps(1))
  then have h: "\<not> P (hd ?t)" by (rule hd_dropWhile)
  have "\<exists>zs. ?t = rev (dropWhile P (rev ?t)) @ zs"
    by (metis rev_append rev_rev_ident takeWhile_dropWhile_id)
  then obtain zs where z: "?t = rev (dropWhile P (rev ?t)) @ zs" ..
  with False have "hd (rev (dropWhile P (rev ?t))) = hd ?t" by (metis hd_append2)
  with h have "\<not> P (hd (rev (dropWhile P (rev ?t))))" by simp
  then show ?thesis by (simp add: dropWhile_eq_self_iff)
qed

lemma trim_idem: "trim (trim s) = trim s"
  by (simp add: trim_def dropWhile_rev_dropWhile)

lemma email_setter_idem: "email_setter (toLowerCase (trim s)) = toLowerCase (trim s)"
  by (simp add: email_setter_def trim_toLowerCase trim_idem toLowerCase_idem)

lemma toLowerCase_Nil_iff: "toLowerCase s = [] \<longleftrightarrow> s = []"
  by (simp add: toLowerCase_def)



section \<open>Frame lemmas\<close>

lemma handle_ledger: "ledger (fst (handleRegistrationEvent w payload d)) = ledger d"
  by (simp add: handleRegistrationEvent_def Let_def split: resolution.splits)

lemma handle_setting: "globalZoomTag (fst (handleRegistrationEvent w payload d)) = globalZoomTag d"
  by (simp add: handleRegistrationEvent_def Let_def split: resolution.splits)

lemma process_event_status: "status (fst (process_event w event payload d)) = 200"
  by (simp add: process_event_def Let_def split: prod.splits)

lemma process_event_ledger: "ledger (fst (snd (process_event w event payload d))) = ledger d"
  using handle_ledger[of w payload d]
  by (simp add: process_event_def Let_def split: prod.splits)

lemma process_event_setting: "globalZoomTag (fst (snd (process_event w event payload d))) = globalZoomTag d"
  using handle_setting[of w payload d]
  by (simp add: process_event_def Let_def split: prod.splits)

lemma status_internal_server_error: "status internal_server_error = 500"
  by (simp add: internal_server_error_def)

lemma record_and_process_status:
  "status (fst (record_and_process w eventId event payload d)) \<in> {200, 500}"
  by (simp add: record_and_process_def process_event_status status_internal_server_error split: sum.splits)

lemma check_and_process_status:
  "status (fst (check_and_process w eventId event payload d)) \<in> {200, 500}"
  using record_and_process_status[of w eventId event payload d]
  by (simp add: check_and_process_def process_event_status status_internal_server_error
      split: sum.splits option.splits)

lemma zoom_webhook_status: "status (fst (zoom_webhook w req d)) \<in> {200, 400, 401, 500}"
  using check_and_process_status[of w "req_eventId req" "req_event req" "req_payload req" d]
  by (auto simp add: zoom_webhook_def Let_def status_internal_server_error
      split: json.splits option.splits)

section \<open>The remote answers do not reach the response\<close>

lemma process_event_response:
  "fst (process_event w' event payload d) = fst (process_event w event payload d')"
  by (simp add: process_event_def Let_def split: prod.splits)

lemma record_and_process_response:
  "ledger d' = ledger d \<Longrightarrow>
   fst (record_and_process w' eventId event payload d') = fst (record_and_process w eventId event payload d)"
  using process_event_response
  by (simp add: record_and_process_def split: sum.splits)

lemma check_and_process_response:
  "fst (check_and_process w' eventId event payload d) = fst (check_and_process w eventId event payload d)"
  using process_event_response[of w' event payload d w d] record_and_process_response[of d d w' eventId event payload w]
  by (simp add: check_and_process_def split: sum.splits option.splits)

lemma verify_remote_update:
  "verifyZoomSignature (w\<lparr>ghl_get_contacts := a, ghl_post_contacts := b, ghl_post_tags := c,
                         ghl_post_workflow := f, now := t\<rparr>) req = verifyZoomSignature w req"
  by (simp add: verifyZoomSignature_def split: option.splits)

lemma zoom_webhook_response:
  "fst (zoom_webhook (w\<lparr>ghl_get_contacts := a, ghl_post_contacts := b, ghl_post_tags := c,
                         ghl_post_workflow := f, now := t\<rparr>) req d)
     = fst (zoom_webhook w req d)"
  by (simp add: zoom_webhook_def verify_remote_update Let_def
      check_and_process_response[of "w\<lparr>ghl_get_contacts := a, ghl_post_contacts := b, ghl_post_tags := c,
                         ghl_post_workflow := f, now := t\<rparr>" _ _ _ _ w]
      split: json.splits option.splits)


section \<open>The requests a registration sends\<close>

lemma searchGHLContact_sent: "snd (searchGHLContact w email) = [SearchContact email]"
  by (simp add: searchGHLContact_def ghlAxios_def split: http_result.splits)

lemma createGHLContact_sent:
  "snd (createGHLContact w registrant) = [CreateContact (create_payload w registrant)]"
  by (simp add: createGHLContact_def ghlAxios_def split: http_result.splits)

lemma addGHLTags_sent: "snd (addGHLTags w contactId tags) = [AddTags contactId tags]"
  by (simp add: addGHLTags_def ghlAxios_def split: http_result.splits)

lemma addContactToWorkflow_sent:
  "snd (addContactToWorkflow w contactId workflowId)
     = [AddToWorkflow contactId workflowId (eventStartTime (now w))]"
  by (simp add: addContactToWorkflow_def ghlAxios_def split: http_result.splits)

lemma resolveRemoteId_calls:
  "snd (resolveRemoteId w registrant email) = [SearchContact email]
   \<or> snd (resolveRemoteId w registrant email)
       = [SearchContact email, CreateContact (create_payload w registrant)]"
  using searchGHLContact_sent[of w email] createGHLContact_sent[of w registrant]
  by (auto simp add: resolveRemoteId_def Let_def split: prod.splits sum.splits js_error.splits)

lemma resolveContact_calls:
  "calls_of (resolveContact w rows registrant email) = []
   \<or> calls_of (resolveContact w rows registrant email) = [SearchContact email]
   \<or> calls_of (resolveContact w rows registrant email)
       = [SearchContact email, CreateContact (create_payload w registrant)]"
  using resolveRemoteId_calls[of w registrant email]
  by (auto simp add: resolveContact_def Let_def split: sum.splits option.splits prod.splits)

lemma applyAutomation_sent:
  "applyAutomation w setting ghlContactId =
     (case addGHLTags w ghlContactId (registration_tags setting) of
        (Inl e, tagged) \<Rightarrow> tagged
      | (Inr ok, tagged) \<Rightarrow>
          (case GHL_WORKFLOW_ID w of
             None \<Rightarrow> tagged
           | Some workflowId \<Rightarrow>
               if workflowId = [] then tagged
               else tagged @ snd (addContactToWorkflow w ghlContactId workflowId)))"
  by (simp add: applyAutomation_def split: prod.splits sum.splits option.splits)

lemma applyAutomation_tags:
  assumes "AddTags gid tags \<in> set (applyAutomation w setting g)"
  shows "gid = g \<and> tags = registration_tags setting"
proof -
  obtain r tagged where t: "addGHLTags w g (registration_tags setting) = (r, tagged)"
    by (cases "addGHLTags w g (registration_tags setting)")
  with addGHLTags_sent[of w g "registration_tags setting"]
  have tg: "tagged = [AddTags g (registration_tags setting)]" by simp
  from assms show ?thesis unfolding applyAutomation_sent t tg
    by (auto simp add: addContactToWorkflow_sent split: sum.splits option.splits if_splits)
qed

lemma handle_tags:
  assumes "AddTags gid tags \<in> set (snd (handleRegistrationEvent w payload d))"
  shows "tags = registration_tags (globalZoomTag d)"
proof -
  let ?registrant = "js_or (get_prop (get_prop payload ''object'') ''registrant'') (get_prop payload ''object'')"
  let ?email = "normalize_email (get_prop ?registrant ''email'')"
  from assms have t: "truthy (get_prop payload ''object'')" "truthy ?email"
    by (auto simp add: handleRegistrationEvent_def Let_def split: if_splits)
  show ?thesis
  proof (cases "resolveContact w (contacts d) ?registrant ?email")
    case (Abort calls)
    with resolveContact_calls[of w "contacts d" ?registrant ?email]
    have "AddTags gid tags \<notin> set calls" by auto
    with assms t Abort show ?thesis by (simp add: handleRegistrationEvent_def Let_def)
  next
    case (Proceed g rows calls)
    with resolveContact_calls[of w "contacts d" ?registrant ?email]
    have "AddTags gid tags \<notin> set calls" by auto
    with assms t Proceed have "AddTags gid tags \<in> set (applyAutomation w (globalZoomTag d) g)"
      by (simp add: handleRegistrationEvent_def Let_def)
    then show ?thesis using applyAutomation_tags by blast
  qed
qed

lemma process_event_tags:
  "AddTags gid tags \<in> set (snd (snd (process_event w event payload d))) \<Longrightarrow>
   tags = registration_tags (globalZoomTag d)"
  using handle_tags[of gid tags w payload d]
  by (auto simp add: process_event_def Let_def split: prod.splits if_splits)

lemma record_and_process_tags:
  "AddTags gid tags \<in> set (snd (snd (record_and_process w eventId event payload d))) \<Longrightarrow>
   tags = registration_tags (globalZoomTag d)"
  by (auto simp add: record_and_process_def split: sum.splits
      dest!: process_event_tags)

lemma check_and_process_tags:
  "AddTags gid tags \<in> set (snd (snd (check_and_process w eventId event payload d))) \<Longrightarrow>
   tags = registration_tags (globalZoomTag d)"
  using process_event_tags[of gid tags w event payload d]
    record_and_process_tags[of gid tags w eventId event payload d]
  by (auto simp add: check_and_process_def split: sum.splits option.splits if_splits)

lemma zoom_webhook_tags:
  "AddTags gid tags \<in> set (snd (snd (zoom_webhook w req d))) \<Longrightarrow>
   tags = registration_tags (globalZoomTag d)"
  using check_and_process_tags[of gid tags w "req_eventId req" "req_event req" "req_payload req" d]
  by (auto simp add: zoom_webhook_def Let_def split: if_splits json.splits option.splits)

lemma ghl_webhook_setting:
  assumes "ghl_webhook w data d0 = (res, d)" and "status res = 200"
    and "truthy (get_prop (js_or (get_prop data ''customData'') data) ''zoom_tag'')"
  shows "globalZoomTag d = Some (get_prop (js_or (get_prop data ''customData'') data) ''zoom_tag'')"
  using assms
  by (auto simp add: ghl_webhook_def Let_def update_global_tag_def strict_neq_def
      status_internal_server_error split: if_splits sum.splits option.splits)


section \<open>The workflow answer is discarded\<close>

lemma search_wf: "searchGHLContact (w\<lparr>ghl_post_workflow := f\<rparr>) = searchGHLContact w"
  by (rule ext) (simp add: searchGHLContact_def ghlAxios_def)

lemma payload_wf: "create_payload (w\<lparr>ghl_post_workflow := f\<rparr>) = create_payload w"
  by (rule ext) (simp add: create_payload_def)

lemma create_wf: "createGHLContact (w\<lparr>ghl_post_workflow := f\<rparr>) = createGHLContact w"
  by (rule ext) (simp add: createGHLContact_def ghlAxios_def payload_wf)

lemma tags_wf: "addGHLTags (w\<lparr>ghl_post_workflow := f\<rparr>) = addGHLTags w"
  by (rule ext)+ (simp add: addGHLTags_def ghlAxios_def)

lemma resolveRemoteId_wf: "resolveRemoteId (w\<lparr>ghl_post_workflow := f\<rparr>) = resolveRemoteId w"
  unfolding resolveRemoteId_def search_wf create_wf by (rule refl)

lemma saveContactLink_wf: "saveContactLink (w\<lparr>ghl_post_workflow := f\<rparr>) = saveContactLink w"
  by (rule ext)+ (simp add: saveContactLink_def cong: option.case_cong if_cong)

lemma resolveContact_wf: "resolveContact (w\<lparr>ghl_post_workflow := f\<rparr>) = resolveContact w"
  unfolding resolveContact_def resolveRemoteId_wf saveContactLink_wf by (rule refl)

lemma applyAutomation_wf: "applyAutomation (w\<lparr>ghl_post_workflow := f\<rparr>) = applyAutomation w"
  by (rule ext)+
    (simp add: applyAutomation_sent addContactToWorkflow_sent tags_wf
      cong: prod.case_cong sum.case_cong option.case_cong if_cong)

lemma handle_wf: "handleRegistrationEvent (w\<lparr>ghl_post_workflow := f\<rparr>) = handleRegistrationEvent w"
  unfolding handleRegistrationEvent_def resolveContact_wf applyAutomation_wf by (rule refl)

lemma process_event_wf: "process_event (w\<lparr>ghl_post_workflow := f\<rparr>) = process_event w"
  unfolding process_event_def handle_wf by (rule refl)

lemma record_and_process_wf: "record_and_process (w\<lparr>ghl_post_workflow := f\<rparr>) = record_and_process w"
  unfolding record_and_process_def process_event_wf by (rule refl)

lemma check_and_process_wf: "check_and_process (w\<lparr>ghl_post_workflow := f\<rparr>) = check_and_process w"
  unfolding check_and_process_def process_event_wf record_and_process_wf by (rule refl)

lemma verify_wf: "verifyZoomSignature (w\<lparr>ghl_post_workflow := f\<rparr>) = verifyZoomSignature w"
  by (rule ext) (simp add: verifyZoomSignature_def split: option.splits)

lemma zoom_webhook_wf: "zoom_webhook (w\<lparr>ghl_post_workflow := f\<rparr>) req d = zoom_webhook w req d"
  by (simp add: zoom_webhook_def check_and_process_wf verify_wf Let_def split: json.splits option.splits)

lemma applyAutomation_enrolls:
  assumes "ghl_post_tags w gid (registration_tags setting) = HttpOk data"
    and "GHL_WORKFLOW_ID w = Some workflowId" and "workflowId \<noteq> []"
  shows "applyAutomation w setting gid =
           [AddTags gid (registration_tags setting),
            AddToWorkflow gid workflowId (eventStartTime (now w))]"
  using assms
  by (simp add: applyAutomation_sent addContactToWorkflow_sent addGHLTags_def ghlAxios_def)

lemma applyAutomation_untagged:
  assumes "\<forall>data. ghl_post_tags w gid (registration_tags setting) \<noteq> HttpOk data"
  shows "applyAutomation w setting gid = [AddTags gid (registration_tags setting)]"
  using assms
  by (cases "ghl_post_tags w gid (registration_tags setting)")
     (simp_all add: applyAutomation_sent addGHLTags_def ghlAxios_def)

lemma eventStartTime_suffix: "\<exists>p. eventStartTime t = p @ ''+00:00''"
  by (simp add: eventStartTime_def)

section \<open>The event identity\<close>

lemma composite_email_inj:
  assumes "length c1 = length c2"
    and "m @ ''_'' @ e1 @ ''_'' @ c1 = m @ ''_'' @ e2 @ ''_'' @ c2"
  shows "e1 = e2"
proof -
  from assms(2) have "(e1 @ ''_'') @ c1 = (e2 @ ''_'') @ c2" by simp
  with assms(1) have "e1 @ ''_'' = e2 @ ''_''" using append_eq_append_conv by blast
  then show ?thesis by simp
qed

lemma registration_event_length:
  "is_registration_event a \<Longrightarrow> is_registration_event b \<Longrightarrow>
     length (js_toString a) = length (js_toString b)"
  by (auto simp: is_registration_event_def)

text \<open>
  C1. When the payload carries a meeting id and a registrant email, the event identity is
  the composite \<open>meetingId_email_eventType\<close>. Two deliveries for the same meeting id whose
  registrant emails are distinct strings get distinct identities (the event types being the
  same, or both registration events); a redelivery with the same meeting id, registrant
  email and event type gets the same identity, whatever its timestamp header and the rest of
  its payload. When the meeting id or the email is missing, the identity is the \<open>uuid\<close> of
  the payload's object if it has one, else the timestamp header.
\<close>

theorem event_identity_composite:
  fixes payload payload' event event' :: json
  shows
  "(truthy (get_prop (get_prop payload ''object'') ''id'') \<and> truthy (registrantEmail payload) \<longrightarrow>
      deriveEventId ts payload event =
        JStr (js_toString (get_prop (get_prop payload ''object'') ''id'') @ ''_''
                @ js_toString (registrantEmail payload) @ ''_'' @ js_toString event))
   \<and> (truthy (get_prop (get_prop payload ''object'') ''id'')
        \<and> get_prop (get_prop payload' ''object'') ''id'' = get_prop (get_prop payload ''object'') ''id''
        \<and> registrantEmail payload = JStr e \<and> registrantEmail payload' = JStr e'
        \<and> e \<noteq> [] \<and> e' \<noteq> [] \<and> e \<noteq> e'
        \<and> (event' = event \<or> is_registration_event event \<and> is_registration_event event') \<longrightarrow>
      deriveEventId ts payload event \<noteq> deriveEventId ts' payload' event')
   \<and> (truthy (get_prop (get_prop payload ''object'') ''id'') \<and> truthy (registrantEmail payload)
        \<and> get_prop (get_prop payload' ''object'') ''id'' = get_prop (get_prop payload ''object'') ''id''
        \<and> registrantEmail payload' = registrantEmail payload \<longrightarrow>
      deriveEventId ts' payload' event = deriveEventId ts payload event)
   \<and> (\<not> (truthy (get_prop (get_prop payload ''object'') ''id'') \<and> truthy (registrantEmail payload)) \<longrightarrow>
      deriveEventId ts payload event =
        (if truthy (get_prop (get_prop payload ''object'') ''uuid'')
         then get_prop (get_prop payload ''object'') ''uuid''
         else of_opt ts))"
proof (intro conjI impI)
  assume "truthy (get_prop (get_prop payload ''object'') ''id'') \<and> truthy (registrantEmail payload)"
  then show "deriveEventId ts payload event =
        JStr (js_toString (get_prop (get_prop payload ''object'') ''id'') @ ''_''
                @ js_toString (registrantEmail payload) @ ''_'' @ js_toString event)"
    by (simp add: deriveEventId_def)
next
  assume a: "truthy (get_prop (get_prop payload ''object'') ''id'')
        \<and> get_prop (get_prop payload' ''object'') ''id'' = get_prop (get_prop payload ''object'') ''id''
        \<and> registrantEmail payload = JStr e \<and> registrantEmail payload' = JStr e'
        \<and> e \<noteq> [] \<and> e' \<noteq> [] \<and> e \<noteq> e'
        \<and> (event' = event \<or> is_registration_event event \<and> is_registration_event event')"
  then have len: "length (js_toString event) = length (js_toString event')"
    using registration_event_length by blast
  show "deriveEventId ts payload event \<noteq> deriveEventId ts' payload' event'"
  proof
    assume "deriveEventId ts payload event = deriveEventId ts' payload' event'"
    with a have "js_toString (get_prop (get_prop payload ''object'') ''id'') @ ''_'' @ e @ ''_'' @ js_toString event
      = js_toString (get_prop (get_prop payload ''object'') ''id'') @ ''_'' @ e' @ ''_'' @ js_toString event'"
      by (simp add: deriveEventId_def)
    with len have "e = e'" by (rule composite_email_inj)
    with a show False by simp
  qed
next
  assume "truthy (get_prop (get_prop payload ''object'') ''id'') \<and> truthy (registrantEmail payload)
        \<and> get_prop (get_prop payload' ''object'') ''id'' = get_prop (get_prop payload ''object'') ''id''
        \<and> registrantEmail payload' = registrantEmail payload"
  then show "deriveEventId ts' payload' event = deriveEventId ts payload event"
    by (simp add: deriveEventId_def)
next
  assume "\<not> (truthy (get_prop (get_prop payload ''object'') ''id'') \<and> truthy (registrantEmail payload))"
  then show "deriveEventId ts payload event =
        (if truthy (get_prop (get_prop payload ''object'') ''uuid'')
         then get_prop (get_prop payload ''object'') ''uuid''
         else of_opt ts)"
    by (auto simp add: deriveEventId_def)
qed

theorem event_identity_composite_witness:
  "deriveEventId (Some ''1700000000'') (registration_payload 555 ''ann@x.com'') webinar_registration
     = JStr ''555_ann@x.com_webinar.registration_created''
   \<and> deriveEventId (Some ''1700000000'') (registration_payload 555 ''ann@x.com'') webinar_registration
     \<noteq> deriveEventId (Some ''1700000001'') (registration_payload 555 ''bob@x.com'') webinar_registration
   \<and> deriveEventId (Some ''1700000099'') (registration_payload 555 ''ann@x.com'') webinar_registration
     = deriveEventId (Some ''1700000000'') (registration_payload 555 ''ann@x.com'') webinar_registration
   \<and> deriveEventId (Some ''1700000000'') payload_without_email webinar_registration = JStr ''m-uuid-1''
   \<and> deriveEventId (Some ''1700000000'') payload_bare webinar_registration = JStr ''1700000000''"
proof -
  have num: "show_int 555 = ''555''" by code_simp
  have id: "get_prop (get_prop (registration_payload 555 em) ''object'') ''id'' = JNum 555" for em
    by (simp add: registration_payload_def)
  have em: "registrantEmail (registration_payload 555 ''ann@x.com'') = JStr ''ann@x.com''"
    "registrantEmail (registration_payload 555 ''bob@x.com'') = JStr ''bob@x.com''"
    by (simp_all add: registration_payload_def registrant_of_def registrantEmail_def js_or_def)
  have no_em: "\<not> truthy (registrantEmail payload_without_email)"
    "get_prop (get_prop payload_without_email ''object'') ''uuid'' = JStr ''m-uuid-1''"
    by (simp_all add: payload_without_email_def registrantEmail_def js_or_def)
  have bare: "\<not> truthy (get_prop (get_prop payload_bare ''object'') ''id'')"
    "get_prop (get_prop payload_bare ''object'') ''uuid'' = JUndefined"
    by (simp_all add: payload_bare_def)
  note a = event_identity_composite
    [where payload = "registration_payload 555 ''ann@x.com''"
       and payload' = "registration_payload 555 ''bob@x.com''"
       and e = "''ann@x.com''" and e' = "''bob@x.com''"
       and event = webinar_registration and event' = webinar_registration
       and ts = "Some ''1700000000''" and ts' = "Some ''1700000001''"]
  note b = event_identity_composite
    [where payload = "registration_payload 555 ''ann@x.com''"
       and payload' = "registration_payload 555 ''ann@x.com''"
       and event = webinar_registration
       and ts = "Some ''1700000000''" and ts' = "Some ''1700000099''"]
  note c = event_identity_composite
    [where payload = payload_without_email and event = webinar_registration
       and ts = "Some ''1700000000''"]
  note d = event_identity_composite
    [where payload = payload_bare and event = webinar_registration
       and ts = "Some ''1700000000''"]
  have 1: "deriveEventId (Some ''1700000000'') (registration_payload 555 ''ann@x.com'') webinar_registration
     = JStr ''555_ann@x.com_webinar.registration_created''"
    using a [THEN conjunct1] by (simp add: id em num webinar_registration_def)
  have 2: "deriveEventId (Some ''1700000000'') (registration_payload 555 ''ann@x.com'') webinar_registration
     \<noteq> deriveEventId (Some ''1700000001'') (registration_payload 555 ''bob@x.com'') webinar_registration"
    using a [THEN conjunct2, THEN conjunct1] by (simp add: id em)
  have 3: "deriveEventId (Some ''1700000099'') (registration_payload 555 ''ann@x.com'') webinar_registration
     = deriveEventId (Some ''1700000000'') (registration_payload 555 ''ann@x.com'') webinar_registration"
    using b [THEN conjunct2, THEN conjunct2, THEN conjunct1] by (simp add: id em)
  have 4: "deriveEventId (Some ''1700000000'') payload_without_email webinar_registration = JStr ''m-uuid-1''"
    using c [THEN conjunct2, THEN conjunct2, THEN conjunct2] no_em by simp
  have 5: "deriveEventId (Some ''1700000000'') payload_bare webinar_registration = JStr ''1700000000''"
    using d [THEN conjunct2, THEN conjunct2, THEN conjunct2] bare by (simp add: of_opt_def)
  from 1 2 3 4 5 show ?thesis by blast
qed


section \<open>Tags and workflow\<close>

text \<open>
  C7. Every tag request of an event carries the value of the \<open>globalZoomTag\<close> setting as it
  is in the database when the event is processed, or \<open>Zoom Registration\<close> when there is no
  setting (or its value is falsy), followed by the literal \<open>zoom registered\<close>. After a
  configuration event that was answered 200 and carried a tag, the tag requests of the next
  event carry that tag.
\<close>

theorem tags_use_current_setting:
  "globalTag None = JStr ''Zoom Registration''
   \<and> (truthy v \<longrightarrow> globalTag (Some v) = v)
   \<and> (\<not> truthy v \<longrightarrow> globalTag (Some v) = JStr ''Zoom Registration'')
   \<and> (AddTags gid tags \<in> set (snd (snd (zoom_webhook w req d))) \<longrightarrow>
        tags = [globalTag (globalZoomTag d), JStr ''zoom registered''])
   \<and> (ghl_webhook w' data d0 = (res, d) \<and> status res = 200
        \<and> truthy (get_prop (js_or (get_prop data ''customData'') data) ''zoom_tag'')
        \<and> AddTags gid tags \<in> set (snd (snd (zoom_webhook w req d))) \<longrightarrow>
        tags = [get_prop (js_or (get_prop data ''customData'') data) ''zoom_tag'',
                JStr ''zoom registered''])"
proof (intro conjI impI)
  show "globalTag None = JStr ''Zoom Registration''" by (simp add: globalTag_def js_or_def)
next
  assume "truthy v" then show "globalTag (Some v) = v" by (simp add: globalTag_def js_or_def)
next
  assume "\<not> truthy v" then show "globalTag (Some v) = JStr ''Zoom Registration''"
    by (simp add: globalTag_def js_or_def)
next
  assume "AddTags gid tags \<in> set (snd (snd (zoom_webhook w req d)))"
  then show "tags = [globalTag (globalZoomTag d), JStr ''zoom registered'']"
    using zoom_webhook_tags by (simp add: registration_tags_def)
next
  assume a: "ghl_webhook w' data d0 = (res, d) \<and> status res = 200
        \<and> truthy (get_prop (js_or (get_prop data ''customData'') data) ''zoom_tag'')
        \<and> AddTags gid tags \<in> set (snd (snd (zoom_webhook w req d)))"
  then have "globalZoomTag d = Some (get_prop (js_or (get_prop data ''customData'') data) ''zoom_tag'')"
    using ghl_webhook_setting by blast
  moreover from a have "tags = registration_tags (globalZoomTag d)"
    using zoom_webhook_tags by blast
  ultimately show "tags = [get_prop (js_or (get_prop data ''customData'') data) ''zoom_tag'',
                JStr ''zoom registered'']"
    using a by (simp add: registration_tags_def globalTag_def js_or_def)
qed

text \<open>
  C10 (amended). For a contact id that is a string: \<^verbatim>\<open>addContactToWorkflow\<close> sends one
  enrolment request, which carries the time of the call in UTC, ending in \<open>+00:00\<close> and
  without \<open>Z\<close>. When \<open>GHL_WORKFLOW_ID\<close> is set and the tag request succeeded, that request
  follows the tag request. When the tag request fails, no enrolment is attempted. Whatever
  the remote platform answers to the enrolment request, the handler's response, the database
  it leaves and the requests it sent are the same.
\<close>

theorem workflow_enrollment_follows_tagging:
  "(\<exists>p. eventStartTime t = p @ ''+00:00'')
   \<and> CHR ''Z'' \<notin> set (eventStartTime t)
   \<and> snd (addContactToWorkflow w (JStr g) workflowId)
       = [AddToWorkflow (JStr g) workflowId (eventStartTime (now w))]
   \<and> (ghl_post_tags w (JStr g) (registration_tags setting) = HttpOk data
        \<and> GHL_WORKFLOW_ID w = Some workflowId \<and> workflowId \<noteq> [] \<longrightarrow>
        applyAutomation w setting (JStr g) =
          [AddTags (JStr g) (registration_tags setting),
           AddToWorkflow (JStr g) workflowId (eventStartTime (now w))])
   \<and> ((\<forall>data. ghl_post_tags w (JStr g) (registration_tags setting) \<noteq> HttpOk data) \<longrightarrow>
        applyAutomation w setting (JStr g) = [AddTags (JStr g) (registration_tags setting)])
   \<and> zoom_webhook (w\<lparr>ghl_post_workflow := f\<rparr>) req d = zoom_webhook w req d"
proof (intro conjI impI)
  show "\<exists>p. eventStartTime t = p @ ''+00:00''" by (rule eventStartTime_suffix)
next
  show "CHR ''Z'' \<notin> set (eventStartTime t)" by (rule eventStartTime_no_Z)
next
  show "snd (addContactToWorkflow w (JStr g) workflowId)
       = [AddToWorkflow (JStr g) workflowId (eventStartTime (now w))]"
    by (rule addContactToWorkflow_sent)
next
  assume "ghl_post_tags w (JStr g) (registration_tags setting) = HttpOk data
        \<and> GHL_WORKFLOW_ID w = Some workflowId \<and> workflowId \<noteq> []"
  then show "applyAutomation w setting (JStr g) =
          [AddTags (JStr g) (registration_tags setting),
           AddToWorkflow (JStr g) workflowId (eventStartTime (now w))]"
    by (simp add: applyAutomation_enrolls)
next
  assume "\<forall>data. ghl_post_tags w (JStr g) (registration_tags setting) \<noteq> HttpOk data"
  then show "applyAutomation w setting (JStr g) = [AddTags (JStr g) (registration_tags setting)]"
    by (rule applyAutomation_untagged)
next
  show "zoom_webhook (w\<lparr>ghl_post_workflow := f\<rparr>) req d = zoom_webhook w req d"
    by (rule zoom_webhook_wf)
qed

theorem tags_use_current_setting_witness:
  "status (fst (ghl_webhook sample_world (config_event ''c1'') empty_db)) = 200
   \<and> truthy (get_prop (js_or (get_prop (config_event ''c1'') ''customData'') (config_event ''c1''))
                ''zoom_tag'')
   \<and> AddTags (JStr ''ghl-1'') [JStr ''Promo'', JStr ''zoom registered'']
       \<in> set (snd (snd (zoom_webhook sample_world (registration_request ''1700000000'' 555 ''ann@x.com'')
                         (snd (ghl_webhook sample_world (config_event ''c1'') empty_db)))))
   \<and> [JStr ''Promo'', JStr ''zoom registered'']
       = [get_prop (js_or (get_prop (config_event ''c1'') ''customData'') (config_event ''c1''))
            ''zoom_tag'', JStr ''zoom registered'']"
proof -
  have h1: "status (fst (ghl_webhook sample_world (config_event ''c1'') empty_db)) = 200"
    by code_simp
  have h2: "truthy (get_prop (js_or (get_prop (config_event ''c1'') ''customData'')
                                (config_event ''c1'')) ''zoom_tag'')"
    by code_simp
  have h3: "AddTags (JStr ''ghl-1'') [JStr ''Promo'', JStr ''zoom registered'']
       \<in> set (snd (snd (zoom_webhook sample_world (registration_request ''1700000000'' 555 ''ann@x.com'')
                         (snd (ghl_webhook sample_world (config_event ''c1'') empty_db)))))"
    by code_simp
  have h0: "ghl_webhook sample_world (config_event ''c1'') empty_db
          = (fst (ghl_webhook sample_world (config_event ''c1'') empty_db),
             snd (ghl_webhook sample_world (config_event ''c1'') empty_db))"
    by simp
  from tags_use_current_setting
    [where w' = sample_world and data = "config_event ''c1''" and ?d0.0 = empty_db
       and res = "fst (ghl_webhook sample_world (config_event ''c1'') empty_db)"
       and d = "snd (ghl_webhook sample_world (config_event ''c1'') empty_db)"
       and gid = "JStr ''ghl-1''" and tags = "[JStr ''Promo'', JStr ''zoom registered'']"
       and w = sample_world and req = "registration_request ''1700000000'' 555 ''ann@x.com''",
     THEN conjunct2, THEN conjunct2, THEN conjunct2, THEN conjunct2]
    h0 h1 h2 h3
  have "[JStr ''Promo'', JStr ''zoom registered'']
       = [get_prop (js_or (get_prop (config_event ''c1'') ''customData'') (config_event ''c1''))
            ''zoom_tag'', JStr ''zoom registered'']"
    by blast
  with h1 h2 h3 show ?thesis by blast
qed

theorem workflow_enrollment_follows_tagging_witness:
  "ghl_post_tags sample_world (JStr ''ghl-1'') (registration_tags None) = HttpOk (JObj [])
   \<and> GHL_WORKFLOW_ID sample_world = Some ''wf-1''
   \<and> applyAutomation sample_world None (JStr ''ghl-1'')
      = [AddTags (JStr ''ghl-1'') [JStr ''Zoom Registration'', JStr ''zoom registered''],
         AddToWorkflow (JStr ''ghl-1'') ''wf-1'' ''2026-01-05T13:07:59+00:00'']
   \<and> ghl_post_tags untaggable_world (JStr ''ghl-1'') (registration_tags None)
       = HttpError 422 (JObj [(''message'', JStr ''Unprocessable'')])
   \<and> applyAutomation untaggable_world None (JStr ''ghl-1'')
      = [AddTags (JStr ''ghl-1'') [JStr ''Zoom Registration'', JStr ''zoom registered'']]"
proof -
  have h1: "ghl_post_tags sample_world (JStr ''ghl-1'') (registration_tags None) = HttpOk (JObj [])"
    by (simp add: sample_world_def)
  have h2: "GHL_WORKFLOW_ID sample_world = Some ''wf-1''" by (simp add: sample_world_def)
  have h3: "ghl_post_tags untaggable_world (JStr ''ghl-1'') (registration_tags None)
       = HttpError 422 (JObj [(''message'', JStr ''Unprocessable'')])"
    by (simp add: untaggable_world_def)
  then have h4: "\<forall>data. ghl_post_tags untaggable_world (JStr ''ghl-1'') (registration_tags None)
                    \<noteq> HttpOk data"
    by simp
  have t: "eventStartTime (now sample_world) = ''2026-01-05T13:07:59+00:00''" by code_simp
  have g: "registration_tags None = [JStr ''Zoom Registration'', JStr ''zoom registered'']"
    by (simp add: registration_tags_def globalTag_def js_or_def)
  note enrol = workflow_enrollment_follows_tagging
    [where w = sample_world and g = "''ghl-1''" and setting = None
       and data = "JObj []" and workflowId = "''wf-1''"]
  note skip = workflow_enrollment_follows_tagging
    [where w = untaggable_world and g = "''ghl-1''" and setting = None]
  from enrol [THEN conjunct2, THEN conjunct2, THEN conjunct2, THEN conjunct1] h1 h2
  have r1: "applyAutomation sample_world None (JStr ''ghl-1'')
      = [AddTags (JStr ''ghl-1'') (registration_tags None),
         AddToWorkflow (JStr ''ghl-1'') ''wf-1'' (eventStartTime (now sample_world))]"
    by simp
  from skip [THEN conjunct2, THEN conjunct2, THEN conjunct2, THEN conjunct2, THEN conjunct1] h4
  have r2: "applyAutomation untaggable_world None (JStr ''ghl-1'')
      = [AddTags (JStr ''ghl-1'') (registration_tags None)]"
    by blast
  from h1 h2 h3 r1 r2 show ?thesis by (simp add: t g)
qed

text \<open>
  A workflow is configured and the tag request is refused: the event is answered 200, and
  the requests sent end with the tag request. No enrolment is attempted.
\<close>

theorem enrollment_skipped_counterexample:
  "GHL_WORKFLOW_ID untaggable_world = Some ''wf-1''
   \<and> zoom_webhook untaggable_world (registration_request ''1700000000'' 555 ''ann@x.com'') empty_db
     = (\<lparr>status = 200, body = JObj [(''message'', JStr ''Webhook received'')]\<rparr>,
        db_after_ann,
        [SearchContact (JStr ''ann@x.com''),
         CreateContact (create_payload untaggable_world (registrant_of ''ann@x.com'')),
         AddTags (JStr ''ghl-1'') [JStr ''Zoom Registration'', JStr ''zoom registered'']])"
  by code_simp


section \<open>Contact resolution\<close>

lemma normalize_email_JStr:
  assumes "normalize_email raw = JStr em"
  shows "email_setter em = em"
proof -
  from assms obtain s where "em = toLowerCase (trim s)"
    by (auto simp add: normalize_email_def js_or_def split: if_splits json.splits)
  then show ?thesis by (simp add: email_setter_idem)
qed

lemma Contact_findOne_JStr:
  "Contact_findOne rows (JStr em) = Inr (find (\<lambda>c. c_email c = Some (email_setter em)) rows)"
  by (simp add: Contact_findOne_def cast_query_def castEmail_def)

lemma linked_iff: "linked c \<longleftrightarrow> (\<exists>g. c_ghlContactId c = Some g \<and> g \<noteq> [])"
  by (cases "c_ghlContactId c") (simp_all add: linked_def of_opt_def)

lemma resolveContact_linked:
  assumes "find (\<lambda>c. c_email c = Some (email_setter em)) rows = Some c"
    and "c_ghlContactId c = Some g" and "g \<noteq> []"
  shows "resolveContact w rows registrant (JStr em) = Proceed (JStr g) rows []"
  using assms by (simp add: resolveContact_def Contact_findOne_JStr of_opt_def)

lemma resolveContact_not_linked:
  assumes "\<not> (\<exists>c. find (\<lambda>c. c_email c = Some (email_setter em)) rows = Some c \<and> linked c)"
  shows "resolveContact w rows registrant (JStr em) =
     (case resolveRemoteId w registrant (JStr em) of
        (None, calls) \<Rightarrow> Abort calls
      | (Some gid, calls) \<Rightarrow>
          (case saveContactLink w rows (find (\<lambda>c. c_email c = Some (email_setter em)) rows)
                  registrant (JStr em) gid of
             Inl e \<Rightarrow> Abort calls
           | Inr rows' \<Rightarrow> Proceed gid rows' calls))"
  using assms
  by (cases "find (\<lambda>c. c_email c = Some (email_setter em)) rows")
     (simp_all add: resolveContact_def Contact_findOne_JStr linked_def
        split: prod.splits option.splits)

lemma resolveContact_not_linked_calls:
  assumes "\<not> (\<exists>c. find (\<lambda>c. c_email c = Some (email_setter em)) rows = Some c \<and> linked c)"
  shows "calls_of (resolveContact w rows registrant (JStr em))
           = snd (resolveRemoteId w registrant (JStr em))"
  unfolding resolveContact_not_linked[OF assms]
  by (simp split: prod.splits option.splits sum.splits)

text \<open>
  C5. For a registrant email that is a string: the resolver returns the id of the local
  record without sending any request exactly when a local record for the email exists and
  carries a (non-empty) remote id. Otherwise its first request is the search by email, and
  the only request that may follow is the creation.
\<close>

theorem resolver_fast_path:
  "(find (\<lambda>c. c_email c = Some (email_setter em)) rows = Some c \<and> c_ghlContactId c = Some g
      \<and> g \<noteq> [] \<longrightarrow>
      resolveContact w rows registrant (JStr em) = Proceed (JStr g) rows [])
   \<and> (calls_of (resolveContact w rows registrant (JStr em)) = [] \<longleftrightarrow>
        (\<exists>c. find (\<lambda>c. c_email c = Some (email_setter em)) rows = Some c \<and> linked c))
   \<and> (\<not> (\<exists>c. find (\<lambda>c. c_email c = Some (email_setter em)) rows = Some c \<and> linked c) \<longrightarrow>
        calls_of (resolveContact w rows registrant (JStr em)) = [SearchContact (JStr em)]
        \<or> calls_of (resolveContact w rows registrant (JStr em))
           = [SearchContact (JStr em), CreateContact (create_payload w registrant)])
   \<and> (normalize_email raw = JStr em \<longrightarrow> email_setter em = em)"
proof (intro conjI impI)
  assume "find (\<lambda>c. c_email c = Some (email_setter em)) rows = Some c \<and> c_ghlContactId c = Some g
      \<and> g \<noteq> []"
  then show "resolveContact w rows registrant (JStr em) = Proceed (JStr g) rows []"
    using resolveContact_linked by blast
next
  show "calls_of (resolveContact w rows registrant (JStr em)) = [] \<longleftrightarrow>
        (\<exists>c. find (\<lambda>c. c_email c = Some (email_setter em)) rows = Some c \<and> linked c)"
  proof
    assume e: "calls_of (resolveContact w rows registrant (JStr em)) = []"
    show "\<exists>c. find (\<lambda>c. c_email c = Some (email_setter em)) rows = Some c \<and> linked c"
    proof (rule ccontr)
      assume n: "\<not> (\<exists>c. find (\<lambda>c. c_email c = Some (email_setter em)) rows = Some c \<and> linked c)"
      from resolveContact_not_linked_calls[OF n] e
      have "snd (resolveRemoteId w registrant (JStr em)) = []" by simp
      with resolveRemoteId_calls[of w registrant "JStr em"] show False by simp
    qed
  next
    assume "\<exists>c. find (\<lambda>c. c_email c = Some (email_setter em)) rows = Some c \<and> linked c"
    then obtain c g where "find (\<lambda>c. c_email c = Some (email_setter em)) rows = Some c"
      "c_ghlContactId c = Some g" "g \<noteq> []" using linked_iff by blast
    then show "calls_of (resolveContact w rows registrant (JStr em)) = []"
      by (simp add: resolveContact_linked)
  qed
next
  assume n: "\<not> (\<exists>c. find (\<lambda>c. c_email c = Some (email_setter em)) rows = Some c \<and> linked c)"
  show "calls_of (resolveContact w rows registrant (JStr em)) = [SearchContact (JStr em)]
        \<or> calls_of (resolveContact w rows registrant (JStr em))
           = [SearchContact (JStr em), CreateContact (create_payload w registrant)]"
    unfolding resolveContact_not_linked_calls[OF n]
    by (rule resolveRemoteId_calls)
next
  assume "normalize_email raw = JStr em"
  then show "email_setter em = em" by (rule normalize_email_JStr)
qed

theorem resolver_fast_path_witness:
  "find (\<lambda>c. c_email c = Some (email_setter ''ann@x.com'')) linked_rows = Some (hd linked_rows)
   \<and> c_ghlContactId (hd linked_rows) = Some ''ghl-1''
   \<and> resolveContact sample_world linked_rows (registrant_of ''Ann@X.com '') (JStr ''ann@x.com'')
       = Proceed (JStr ''ghl-1'') linked_rows []
   \<and> \<not> (\<exists>c. find (\<lambda>c. c_email c = Some (email_setter ''ann@x.com'')) unlinked_rows = Some c
              \<and> linked c)
   \<and> (calls_of (resolveContact sample_world unlinked_rows (registrant_of ''Ann@X.com '')
                   (JStr ''ann@x.com''))
         = [SearchContact (JStr ''ann@x.com'')]
        \<or> calls_of (resolveContact sample_world unlinked_rows (registrant_of ''Ann@X.com '')
                      (JStr ''ann@x.com''))
         = [SearchContact (JStr ''ann@x.com''),
            CreateContact (create_payload sample_world (registrant_of ''Ann@X.com ''))])
   \<and> normalize_email (JStr ''Ann@X.com '') = JStr ''ann@x.com''
   \<and> email_setter ''ann@x.com'' = ''ann@x.com''"
proof -
  have n: "normalize_email (JStr ''Ann@X.com '') = JStr ''ann@x.com''" by code_simp
  note t = resolver_fast_path [where raw = "JStr ''Ann@X.com ''" and em = "''ann@x.com''"
      and w = sample_world and registrant = "registrant_of ''Ann@X.com ''"]
  from t [where rows = linked_rows, THEN conjunct2, THEN conjunct2, THEN conjunct2] n
  have e: "email_setter ''ann@x.com'' = ''ann@x.com''" by blast
  have f1: "find (\<lambda>c. c_email c = Some (email_setter ''ann@x.com'')) linked_rows
              = Some (hd linked_rows)"
    by (simp add: e linked_rows_def)
  have g1: "c_ghlContactId (hd linked_rows) = Some ''ghl-1''" by (simp add: linked_rows_def)
  from t [where rows = linked_rows and c = "hd linked_rows" and g = "''ghl-1''", THEN conjunct1]
    f1 g1
  have r1: "resolveContact sample_world linked_rows (registrant_of ''Ann@X.com '') (JStr ''ann@x.com'')
       = Proceed (JStr ''ghl-1'') linked_rows []"
    by simp
  have f2: "\<not> (\<exists>c. find (\<lambda>c. c_email c = Some (email_setter ''ann@x.com'')) unlinked_rows = Some c
              \<and> linked c)"
    by (simp add: e unlinked_rows_def linked_def of_opt_def)
  from t [where rows = unlinked_rows, THEN conjunct2, THEN conjunct2, THEN conjunct1] f2
  have r2: "calls_of (resolveContact sample_world unlinked_rows (registrant_of ''Ann@X.com '')
                   (JStr ''ann@x.com''))
         = [SearchContact (JStr ''ann@x.com'')]
        \<or> calls_of (resolveContact sample_world unlinked_rows (registrant_of ''Ann@X.com '')
                      (JStr ''ann@x.com''))
         = [SearchContact (JStr ''ann@x.com''),
            CreateContact (create_payload sample_world (registrant_of ''Ann@X.com ''))]"
    by blast
  from f1 g1 r1 f2 r2 n e show ?thesis by blast
qed

lemma search_fails:
  assumes "(\<exists>st sd. ghl_get_contacts w email = HttpError st sd \<and> st \<noteq> 404)
           \<or> ghl_get_contacts w email = NetworkError"
  shows "\<exists>err. searchGHLContact w email = (Inl err, [SearchContact email])"
  using assms by (auto simp add: searchGHLContact_def ghlAxios_def)

lemma resolveRemoteId_after_failed_search:
  assumes "searchGHLContact w email = (Inl err, [SearchContact email])"
  shows "snd (resolveRemoteId w registrant email)
           = [SearchContact email, CreateContact (create_payload w registrant)]"
  using assms createGHLContact_sent[of w registrant]
  by (auto simp add: resolveRemoteId_def split: prod.splits sum.splits js_error.splits)

lemma resolveRemoteId_recovers:
  assumes "searchGHLContact w email = (Inl err, [SearchContact email])"
    and "ghl_post_contacts w (create_payload w registrant) = HttpError 400 cd"
    and "truthy (get_prop (get_prop cd ''meta'') ''contactId'')"
  shows "resolveRemoteId w registrant email =
           (Some (get_prop (get_prop cd ''meta'') ''contactId''),
            [SearchContact email, CreateContact (create_payload w registrant)])"
  using assms by (simp add: resolveRemoteId_def createGHLContact_def ghlAxios_def)


text \<open>
  C6. When the remote search fails with a status other than 404 (or without any answer),
  the resolution goes on to the creation request. When that request is answered 400 with an
  id under \<open>meta.contactId\<close>, this id is the resolved id, and the resolution proceeds
  with it once the local record is saved.
\<close>

theorem search_failure_then_conflict_recovery:
  "((ghl_get_contacts w email = HttpError st sd \<and> st \<noteq> 404)
      \<or> ghl_get_contacts w email = NetworkError \<longrightarrow>
      snd (resolveRemoteId w registrant email)
        = [SearchContact email, CreateContact (create_payload w registrant)])
   \<and> (((ghl_get_contacts w email = HttpError st sd \<and> st \<noteq> 404)
         \<or> ghl_get_contacts w email = NetworkError)
        \<and> ghl_post_contacts w (create_payload w registrant) = HttpError 400 cd
        \<and> truthy (get_prop (get_prop cd ''meta'') ''contactId'') \<longrightarrow>
      resolveRemoteId w registrant email
        = (Some (get_prop (get_prop cd ''meta'') ''contactId''),
           [SearchContact email, CreateContact (create_payload w registrant)]))
   \<and> (((ghl_get_contacts w (JStr em) = HttpError st sd \<and> st \<noteq> 404)
         \<or> ghl_get_contacts w (JStr em) = NetworkError)
        \<and> ghl_post_contacts w (create_payload w registrant) = HttpError 400 cd
        \<and> truthy (get_prop (get_prop cd ''meta'') ''contactId'')
        \<and> \<not> (\<exists>c. find (\<lambda>c. c_email c = Some (email_setter em)) rows = Some c \<and> linked c)
        \<and> saveContactLink w rows (find (\<lambda>c. c_email c = Some (email_setter em)) rows)
              registrant (JStr em) (get_prop (get_prop cd ''meta'') ''contactId'') = Inr rows' \<longrightarrow>
      resolveContact w rows registrant (JStr em)
        = Proceed (get_prop (get_prop cd ''meta'') ''contactId'') rows'
            [SearchContact (JStr em), CreateContact (create_payload w registrant)])"
proof (intro conjI impI)
  assume "(ghl_get_contacts w email = HttpError st sd \<and> st \<noteq> 404)
      \<or> ghl_get_contacts w email = NetworkError"
  then obtain err where "searchGHLContact w email = (Inl err, [SearchContact email])"
    using search_fails by blast
  then show "snd (resolveRemoteId w registrant email)
        = [SearchContact email, CreateContact (create_payload w registrant)]"
    by (rule resolveRemoteId_after_failed_search)
next
  assume a: "((ghl_get_contacts w email = HttpError st sd \<and> st \<noteq> 404)
         \<or> ghl_get_contacts w email = NetworkError)
        \<and> ghl_post_contacts w (create_payload w registrant) = HttpError 400 cd
        \<and> truthy (get_prop (get_prop cd ''meta'') ''contactId'')"
  then obtain err where "searchGHLContact w email = (Inl err, [SearchContact email])"
    using search_fails by blast
  with a show "resolveRemoteId w registrant email
        = (Some (get_prop (get_prop cd ''meta'') ''contactId''),
           [SearchContact email, CreateContact (create_payload w registrant)])"
    using resolveRemoteId_recovers by blast
next
  assume a: "((ghl_get_contacts w (JStr em) = HttpError st sd \<and> st \<noteq> 404)
         \<or> ghl_get_contacts w (JStr em) = NetworkError)
        \<and> ghl_post_contacts w (create_payload w registrant) = HttpError 400 cd
        \<and> truthy (get_prop (get_prop cd ''meta'') ''contactId'')
        \<and> \<not> (\<exists>c. find (\<lambda>c. c_email c = Some (email_setter em)) rows = Some c \<and> linked c)
        \<and> saveContactLink w rows (find (\<lambda>c. c_email c = Some (email_setter em)) rows)
              registrant (JStr em) (get_prop (get_prop cd ''meta'') ''contactId'') = Inr rows'"
  then obtain err where "searchGHLContact w (JStr em) = (Inl err, [SearchContact (JStr em)])"
    using search_fails by blast
  with a have r: "resolveRemoteId w registrant (JStr em)
        = (Some (get_prop (get_prop cd ''meta'') ''contactId''),
           [SearchContact (JStr em), CreateContact (create_payload w registrant)])"
    using resolveRemoteId_recovers by blast
  from a have n: "\<not> (\<exists>c. find (\<lambda>c. c_email c = Some (email_setter em)) rows = Some c \<and> linked c)"
    by blast
  from a show "resolveContact w rows registrant (JStr em)
        = Proceed (get_prop (get_prop cd ''meta'') ''contactId'') rows'
            [SearchContact (JStr em), CreateContact (create_payload w registrant)]"
    unfolding resolveContact_not_linked[OF n] r by simp
qed

theorem search_failure_then_conflict_recovery_witness:
  "ghl_get_contacts forbidden_world (JStr ''ann@x.com'') = HttpError 403 (JObj [(''message'', JStr ''Forbidden'')])
   \<and> ghl_post_contacts forbidden_world (create_payload forbidden_world (registrant_of ''Ann@X.com ''))
       = HttpError 400 (JObj [(''meta'', JObj [(''contactId'', JStr ''ghl-9'')])])
   \<and> resolveRemoteId forbidden_world (registrant_of ''Ann@X.com '') (JStr ''ann@x.com'')
       = (Some (JStr ''ghl-9''),
          [SearchContact (JStr ''ann@x.com''),
           CreateContact (create_payload forbidden_world (registrant_of ''Ann@X.com ''))])
   \<and> resolveContact forbidden_world unlinked_rows (registrant_of ''Ann@X.com '') (JStr ''ann@x.com'')
       = Proceed (JStr ''ghl-9'')
           (map (\<lambda>c. c\<lparr>c_ghlContactId := Some ''ghl-9''\<rparr>) unlinked_rows)
           [SearchContact (JStr ''ann@x.com''),
            CreateContact (create_payload forbidden_world (registrant_of ''Ann@X.com ''))]"
proof -
  let ?cd = "JObj [(''meta'', JObj [(''contactId'', JStr ''ghl-9'')])]"
  have h1: "ghl_get_contacts forbidden_world (JStr ''ann@x.com'')
              = HttpError 403 (JObj [(''message'', JStr ''Forbidden'')])"
    by (simp add: forbidden_world_def)
  have h2: "ghl_post_contacts forbidden_world (create_payload forbidden_world (registrant_of ''Ann@X.com ''))
              = HttpError 400 ?cd"
    by (simp add: forbidden_world_def)
  have h3: "get_prop (get_prop ?cd ''meta'') ''contactId'' = JStr ''ghl-9''" by simp
  have e: "email_setter ''ann@x.com'' = ''ann@x.com''" by code_simp
  have h4: "\<not> (\<exists>c. find (\<lambda>c. c_email c = Some (email_setter ''ann@x.com'')) unlinked_rows = Some c
              \<and> linked c)"
    by (simp add: e unlinked_rows_def linked_def of_opt_def)
  have h5: "saveContactLink forbidden_world unlinked_rows
              (find (\<lambda>c. c_email c = Some (email_setter ''ann@x.com'')) unlinked_rows)
              (registrant_of ''Ann@X.com '') (JStr ''ann@x.com'') (JStr ''ghl-9'')
            = Inr (map (\<lambda>c. c\<lparr>c_ghlContactId := Some ''ghl-9''\<rparr>) unlinked_rows)"
    by (simp add: e unlinked_rows_def saveContactLink_def Contact_updateOne_def)
  note t = search_failure_then_conflict_recovery
    [where w = forbidden_world and email = "JStr ''ann@x.com''" and em = "''ann@x.com''"
       and st = 403 and sd = "JObj [(''message'', JStr ''Forbidden'')]"
       and registrant = "registrant_of ''Ann@X.com ''" and cd = ?cd
       and rows = unlinked_rows
       and rows' = "map (\<lambda>c. c\<lparr>c_ghlContactId := Some ''ghl-9''\<rparr>) unlinked_rows"]
  from t [THEN conjunct2, THEN conjunct1] h1 h2 h3
  have r1: "resolveRemoteId forbidden_world (registrant_of ''Ann@X.com '') (JStr ''ann@x.com'')
       = (Some (JStr ''ghl-9''),
          [SearchContact (JStr ''ann@x.com''),
           CreateContact (create_payload forbidden_world (registrant_of ''Ann@X.com ''))])"
    by simp
  from t [THEN conjunct2, THEN conjunct2] h1 h2 h3 h4 h5
  have r2: "resolveContact forbidden_world unlinked_rows (registrant_of ''Ann@X.com '') (JStr ''ann@x.com'')
       = Proceed (JStr ''ghl-9'')
           (map (\<lambda>c. c\<lparr>c_ghlContactId := Some ''ghl-9''\<rparr>) unlinked_rows)
           [SearchContact (JStr ''ann@x.com''),
            CreateContact (create_payload forbidden_world (registrant_of ''Ann@X.com ''))]"
    by simp
  from h1 h2 r1 r2 show ?thesis by blast
qed

section \<open>The local record after a resolution\<close>

lemma find_Some_filter:
  assumes "distinct (map f xs)" and "find (\<lambda>x. f x = k) xs = Some c"
  shows "filter (\<lambda>x. f x = k) xs = [c]"
  using assms
proof (induction xs)
  case Nil
  then show ?case by simp
next
  case (Cons x xs)
  show ?case
  proof (cases "f x = k")
    case True
    with Cons.prems have "x = c" by simp
    moreover from Cons.prems have "f x \<notin> f ` set xs" by simp
    with True have "\<forall>y\<in>set xs. f y \<noteq> k" by blast
    then have "filter (\<lambda>x. f x = k) xs = []" by (simp add: filter_empty_conv)
    ultimately show ?thesis using True by simp
  next
    case False
    with Cons show ?thesis by simp
  qed
qed

lemma find_None_filter: "find P xs = None \<Longrightarrow> filter P xs = []"
  by (simp add: find_None_iff filter_empty_conv)

lemma update_first_map:
  "distinct (map h xs) \<Longrightarrow>
   update_first (\<lambda>x. h x = i) f xs = map (\<lambda>x. if h x = i then f x else x) xs"
proof (induction xs)
  case Nil
  then show ?case by simp
next
  case (Cons x xs)
  show ?case
  proof (cases "h x = i")
    case True
    from Cons.prems have "h x \<notin> h ` set xs" by simp
    with True have "\<forall>y\<in>set xs. h y \<noteq> i" by blast
    then have "map (\<lambda>x. if h x = i then f x else x) xs = xs" by (simp add: map_idI)
    with True show ?thesis by simp
  next
    case False
    with Cons show ?thesis by simp
  qed
qed

lemma truthy_castString:
  assumes "truthy v" and "castString v = Inr r"
  shows "\<exists>s. r = Some s \<and> s \<noteq> []"
proof (cases v)
  case JUndefined
  with assms(1) show ?thesis by simp
next
  case JNull
  with assms(1) show ?thesis by simp
next
  case (JBool b)
  with assms have "r = Some ''true''" by simp
  then show ?thesis by simp
next
  case (JNum n)
  with assms(2) have "r = Some (show_int n)" by simp
  then show ?thesis by (simp add: show_int_nonempty)
next
  case (JStr s)
  with assms have "r = Some s" "s \<noteq> []" by auto
  then show ?thesis by blast
next
  case (JArr xs)
  with assms(2) show ?thesis by simp
next
  case (JObj kvs)
  with assms(2) show ?thesis by (auto split: json.splits if_splits)
qed



lemma required_string_Inr:
  "required_string c = Inr s \<Longrightarrow> c = Inr (Some s) \<and> s \<noteq> []"
  by (simp add: required_string_def split: sum.splits option.splits if_splits)

lemma Contact_create_Inr:
  assumes "Contact_create rows email gid fn ln ph loc = Inr rows'"
  shows "\<exists>c. rows' = rows @ [c] \<and> castEmail email = Inr (c_email c) \<and> c_email c \<noteq> None
             \<and> castString gid = Inr (c_ghlContactId c) \<and> linked c
             \<and> c_email c \<notin> c_email ` set rows \<and> c_id c = fresh_id rows"
proof -
  from assms obtain em g f l p lo where
    e: "required_string (castEmail email) = Inr em"
    and g: "required_string (castString gid) = Inr g"
    and r: "Some em \<notin> c_email ` set rows"
      "rows' = rows @ [\<lparr>c_id = fresh_id rows, c_email = Some em, c_ghlContactId = Some g,
                         c_firstName = f, c_lastName = l, c_phone = p, c_locationId = lo\<rparr>]"
    by (auto simp add: Contact_create_def split: sum.splits if_splits)
  from e have "castEmail email = Inr (Some em)" by (simp add: required_string_Inr)
  moreover from g have "castString gid = Inr (Some g)" "g \<noteq> []" by (simp_all add: required_string_Inr)
  ultimately show ?thesis using r by (simp add: linked_def of_opt_def)
qed

lemma Contact_updateOne_Inr:
  assumes "Contact_updateOne rows i gid = Inr rows'" and "truthy gid" and "distinct (map c_id rows)"
  shows "\<exists>v. castString gid = Inr v \<and> truthy (of_opt v)
           \<and> rows' = map (\<lambda>c. if c_id c = i then c\<lparr>c_ghlContactId := v\<rparr> else c) rows"
proof -
  from assms(1) obtain v where v: "castString gid = Inr v"
    by (simp add: Contact_updateOne_def split: sum.splits)
  from assms(2) have "gid \<noteq> JUndefined" by auto
  with assms(1) v have "rows' = update_first (\<lambda>c. c_id c = i) (\<lambda>c. c\<lparr>c_ghlContactId := v\<rparr>) rows"
    by (simp add: Contact_updateOne_def)
  with assms(3) have "rows' = map (\<lambda>c. if c_id c = i then c\<lparr>c_ghlContactId := v\<rparr> else c) rows"
    by (simp add: update_first_map)
  moreover from truthy_castString[OF assms(2) v] have "truthy (of_opt v)"
    by (auto simp add: of_opt_def)
  ultimately show ?thesis using v by blast
qed

lemma filter_email_relink:
  "filter (\<lambda>c. c_email c = k) (map (\<lambda>c. if c_id c = i then c\<lparr>c_ghlContactId := v\<rparr> else c) rows)
   = map (\<lambda>c. if c_id c = i then c\<lparr>c_ghlContactId := v\<rparr> else c) (filter (\<lambda>c. c_email c = k) rows)"
  by (induction rows) simp_all


section \<open>The handlers keep the contact collection well formed\<close>

lemma fold_max_ge: "a \<le> fold max xs (a::nat)"
proof (induction xs arbitrary: a)
  case Nil
  then show ?case by simp
next
  case (Cons y ys)
  have "a \<le> max y a" by simp
  also have "max y a \<le> fold max ys (max y a)" by (rule Cons.IH)
  finally show ?case by simp
qed

lemma fold_max_mem: "x \<in> set xs \<Longrightarrow> x \<le> fold max xs (a::nat)"
proof (induction xs arbitrary: a)
  case Nil
  then show ?case by simp
next
  case (Cons y ys)
  show ?case
  proof (cases "x = y")
    case True
    have "max y a \<le> fold max ys (max y a)" by (rule fold_max_ge)
    with True show ?thesis by simp
  next
    case False
    with Cons show ?thesis by simp
  qed
qed

lemma fresh_id_fresh: "fresh_id rows \<notin> c_id ` set rows"
proof
  assume "fresh_id rows \<in> c_id ` set rows"
  then have "fresh_id rows \<in> set (map c_id rows)" by simp
  then have "fresh_id rows \<le> fold max (map c_id rows) 0" by (rule fold_max_mem)
  then show False by (simp add: fresh_id_def)
qed

lemma contacts_ok_append:
  assumes "contacts_ok rows" and "c_id c = fresh_id rows" and "c_email c \<notin> c_email ` set rows"
  shows "contacts_ok (rows @ [c])"
  using assms fresh_id_fresh[of rows] by (simp add: contacts_ok_def)

lemma update_first_set:
  "find P xs = Some c \<Longrightarrow> set (update_first P f xs) \<subseteq> insert (f c) (set xs)"
  by (induction xs) (auto split: if_splits)

lemma update_first_distinct:
  assumes "distinct (map k xs)" and "find P xs = Some c"
    and "k (f c) = k c \<or> k (f c) \<notin> k ` set xs"
  shows "distinct (map k (update_first P f xs))"
  using assms
proof (induction xs)
  case Nil
  then show ?case by simp
next
  case (Cons x xs)
  show ?case
  proof (cases "P x")
    case True
    with Cons.prems(2) have c: "c = x" by simp
    from Cons.prems(1) have "k x \<notin> k ` set xs" "distinct (map k xs)" by simp_all
    with Cons.prems(3) c have "k (f x) \<notin> k ` set xs" by auto
    with True \<open>distinct (map k xs)\<close> show ?thesis by simp
  next
    case False
    with Cons.prems(2) have fc: "find P xs = Some c" by simp
    then have cin: "c \<in> set xs" by (auto simp add: find_Some_iff)
    from Cons.prems(1) have d: "k x \<notin> k ` set xs" "distinct (map k xs)" by simp_all
    from Cons.prems(3) have "k (f c) = k c \<or> k (f c) \<notin> k ` set xs" by auto
    with d(2) fc have ih: "distinct (map k (update_first P f xs))" by (rule Cons.IH)
    have "k (f c) \<noteq> k x"
    proof
      assume e: "k (f c) = k x"
      from Cons.prems(3) show False
      proof
        assume "k (f c) = k c"
        with e cin d(1) show False by (metis imageI)
      next
        assume "k (f c) \<notin> k ` set (x # xs)"
        with e show False by simp
      qed
    qed
    with d(1) update_first_set[OF fc, of f] have "k x \<notin> k ` set (update_first P f xs)"
      by auto
    with False ih show ?thesis by simp
  qed
qed

lemma Contact_create_ok:
  assumes "contacts_ok rows" and "Contact_create rows email gid fn ln ph loc = Inr rows'"
  shows "contacts_ok rows'"
proof -
  from Contact_create_Inr[OF assms(2)] obtain c where
    "rows' = rows @ [c]" "c_email c \<notin> c_email ` set rows" "c_id c = fresh_id rows" by blast
  with assms(1) show ?thesis by (simp add: contacts_ok_append)
qed

lemma relink_map_id:
  "map c_id (map (\<lambda>c. if c_id c = i then c\<lparr>c_ghlContactId := v\<rparr> else c) rows) = map c_id rows"
  by (induction rows) simp_all

lemma relink_map_email:
  "map c_email (map (\<lambda>c. if c_id c = i then c\<lparr>c_ghlContactId := v\<rparr> else c) rows)
     = map c_email rows"
  by (induction rows) simp_all

lemma Contact_updateOne_ok:
  assumes "contacts_ok rows" and "Contact_updateOne rows i gid = Inr rows'"
  shows "contacts_ok rows'"
proof (cases "gid = JUndefined")
  case True
  with assms show ?thesis by (simp add: Contact_updateOne_def)
next
  case False
  with assms(2) obtain v where
    r: "rows' = update_first (\<lambda>c. c_id c = i) (\<lambda>c. c\<lparr>c_ghlContactId := v\<rparr>) rows"
    by (auto simp add: Contact_updateOne_def split: sum.splits)
  from assms(1) have "distinct (map c_id rows)" by (simp add: contacts_ok_def)
  then have "rows' = map (\<lambda>c. if c_id c = i then c\<lparr>c_ghlContactId := v\<rparr> else c) rows"
    unfolding r by (rule update_first_map)
  then have "map c_id rows' = map c_id rows" "map c_email rows' = map c_email rows"
    by (simp_all only: relink_map_id relink_map_email)
  with assms(1) show ?thesis by (simp only: contacts_ok_def)
qed

lemma cast_update_id: "cast_update u = Inr f \<Longrightarrow> c_id (f c) = c_id c"
  by (auto simp add: cast_update_def split: sum.splits)

lemma filter_doc_id: "c_id (filter_doc f i) = i"
  by (simp add: filter_doc_def Let_def split: contact_filter.splits sum.splits)

lemma Contact_findOneAndUpdate_ok:
  assumes "contacts_ok rows" and "Contact_findOneAndUpdate rows f u = Inr rows'"
  shows "contacts_ok rows'"
proof -
  from assms(2) obtain matches apply_update where
    m: "cast_filter f = Inr matches" and a: "cast_update u = Inr apply_update"
    by (auto simp add: Contact_findOneAndUpdate_def split: sum.splits)
  show ?thesis
  proof (cases "find matches rows")
    case None
    let ?doc = "apply_update (filter_doc f (fresh_id rows))"
    from assms(2) m a None have "c_email ?doc \<notin> c_email ` set rows" "rows' = rows @ [?doc]"
      by (auto simp add: Contact_findOneAndUpdate_def Let_def split: if_splits)
    moreover have "c_id ?doc = fresh_id rows" by (simp add: cast_update_id[OF a] filter_doc_id)
    ultimately show ?thesis using assms(1) by (simp add: contacts_ok_append)
  next
    case (Some c)
    with assms(2) m a have
      e: "c_email (apply_update c) = c_email c \<or> c_email (apply_update c) \<notin> c_email ` set rows"
      and r: "rows' = update_first matches apply_update rows"
      by (auto simp add: Contact_findOneAndUpdate_def split: if_splits)
    from assms(1) have d: "distinct (map c_id rows)" "distinct (map c_email rows)"
      by (simp_all add: contacts_ok_def)
    from d(2) Some e have "distinct (map c_email (update_first matches apply_update rows))"
      by (rule update_first_distinct)
    moreover from d(1) Some have "distinct (map c_id (update_first matches apply_update rows))"
      by (rule update_first_distinct) (simp add: cast_update_id[OF a])
    ultimately show ?thesis using r by (simp add: contacts_ok_def)
  qed
qed

lemma saveContactLink_ok:
  assumes "contacts_ok rows" and "saveContactLink w rows contact registrant email g = Inr rows'"
  shows "contacts_ok rows'"
proof (cases "truthy g")
  case False
  with assms show ?thesis by (simp add: saveContactLink_def)
next
  case True
  show ?thesis
  proof (cases contact)
    case None
    with True assms(2) have "Contact_create rows email g
               (get_prop registrant ''first_name'') (get_prop registrant ''last_name'')
               (get_prop registrant ''phone'') (of_opt (GHL_LOCATION_ID w)) = Inr rows'"
      by (simp add: saveContactLink_def)
    with assms(1) show ?thesis by (rule Contact_create_ok)
  next
    case (Some c)
    with True assms(2) have "Contact_updateOne rows (c_id c) g = Inr rows'"
      by (simp add: saveContactLink_def)
    with assms(1) show ?thesis by (rule Contact_updateOne_ok)
  qed
qed

lemma resolveContact_ok:
  assumes "contacts_ok rows" and "resolveContact w rows registrant email = Proceed gid rows' calls"
  shows "contacts_ok rows'"
proof -
  from assms(2) obtain contact where f: "Contact_findOne rows email = Inr contact"
    by (cases "Contact_findOne rows email") (simp_all add: resolveContact_def)
  let ?g = "case contact of None \<Rightarrow> JUndefined | Some c \<Rightarrow> of_opt (c_ghlContactId c)"
  show ?thesis
  proof (cases "contact = None \<or> \<not> truthy ?g")
    case False
    with assms(2) f have "rows' = rows" by (simp add: resolveContact_def)
    with assms(1) show ?thesis by simp
  next
    case True
    obtain r calls' where rr: "resolveRemoteId w registrant email = (r, calls')"
      by (cases "resolveRemoteId w registrant email")
    show ?thesis
    proof (cases r)
      case None
      with assms(2) f True rr show ?thesis by (simp add: resolveContact_def)
    next
      case (Some g)
      with assms(2) f True rr
      have "saveContactLink w rows contact registrant email g = Inr rows'"
        by (simp add: resolveContact_def split: sum.splits)
      with assms(1) show ?thesis by (rule saveContactLink_ok)
    qed
  qed
qed

lemma handle_contacts_ok:
  assumes "contacts_ok (contacts d)"
  shows "contacts_ok (contacts (fst (handleRegistrationEvent w payload d)))"
proof -
  let ?registrant = "js_or (get_prop (get_prop payload ''object'') ''registrant'') (get_prop payload ''object'')"
  let ?email = "normalize_email (get_prop ?registrant ''email'')"
  show ?thesis
  proof (cases "resolveContact w (contacts d) ?registrant ?email")
    case (Abort calls)
    with assms show ?thesis by (simp add: handleRegistrationEvent_def Let_def)
  next
    case (Proceed g rows calls)
    with assms have "contacts_ok rows" using resolveContact_ok by blast
    with assms Proceed show ?thesis by (simp add: handleRegistrationEvent_def Let_def)
  qed
qed

lemma process_event_contacts_ok:
  assumes "contacts_ok (contacts d)"
  shows "contacts_ok (contacts (fst (snd (process_event w event payload d))))"
  using assms handle_contacts_ok[OF assms, of w payload]
  by (simp add: process_event_def Let_def split: prod.splits)

lemma record_and_process_contacts_ok:
  assumes "contacts_ok (contacts d)"
  shows "contacts_ok (contacts (fst (snd (record_and_process w eventId event payload d))))"
proof (cases "ZoomEvent_create (ledger d) eventId event (registrantEmail payload)")
  case (Inl e)
  with assms show ?thesis by (simp add: record_and_process_def)
next
  case (Inr evs)
  from assms have "contacts_ok (contacts (d\<lparr>ledger := evs\<rparr>))" by simp
  then have "contacts_ok (contacts (fst (snd (process_event w event payload (d\<lparr>ledger := evs\<rparr>)))))"
    by (rule process_event_contacts_ok)
  with Inr show ?thesis by (simp add: record_and_process_def)
qed

lemma check_and_process_contacts_ok:
  assumes "contacts_ok (contacts d)"
  shows "contacts_ok (contacts (fst (snd (check_and_process w eventId event payload d))))"
  using assms process_event_contacts_ok[OF assms, of w event payload]
    record_and_process_contacts_ok[OF assms, of w eventId event payload]
  by (simp add: check_and_process_def split: sum.splits option.splits)

lemma zoom_webhook_contacts_ok:
  assumes "contacts_ok (contacts d)"
  shows "contacts_ok (contacts (fst (snd (zoom_webhook w req d))))"
  using assms check_and_process_contacts_ok[OF assms, of w "req_eventId req" "req_event req" "req_payload req"]
  by (simp add: zoom_webhook_def Let_def split: json.splits option.splits)

lemma ghl_webhook_contacts_ok:
  assumes "contacts_ok (contacts d)"
  shows "contacts_ok (contacts (snd (ghl_webhook w data d)))"
proof -
  let ?p = "js_or (get_prop data ''customData'') data"
  let ?d1 = "d\<lparr>globalZoomTag := update_global_tag (get_prop ?p ''zoom_tag'') (globalZoomTag d)\<rparr>"
  from assms have "contacts_ok (contacts ?d1)" by simp
  then show ?thesis
    using Contact_findOneAndUpdate_ok[of "contacts d"]
    by (simp add: ghl_webhook_def Let_def split: sum.splits)
qed

lemma empty_db_contacts_ok: "contacts_ok (contacts empty_db)"
  by (simp add: contacts_ok_def empty_db_def)

section \<open>One linked record per resolved email\<close>

text \<open>
  C4. In a contact collection that satisfies its unique indexes, a resolution that went
  through with a resolved id leaves the collection satisfying them, with exactly one record
  for the registrant's normalised email, and that record carries the resolved id. If a
  record with that email existed, it is the same record with its \<open>ghlContactId\<close> set (the
  collection has the same length and the same ids); if none existed, the new record is
  appended.
\<close>

theorem resolution_links_one_record:
  assumes ok: "contacts_ok rows"
    and "normalize_email raw = JStr em"
    and "resolveContact w rows registrant (JStr em) = Proceed gid rows' calls"
    and "truthy gid"
  shows "contacts_ok rows'
         \<and> (\<exists>c. filter (\<lambda>c. c_email c = Some em) rows' = [c]
           \<and> castString gid = Inr (c_ghlContactId c) \<and> linked c
           \<and> (\<forall>c0. find (\<lambda>c. c_email c = Some em) rows = Some c0 \<longrightarrow>
                  c = c0\<lparr>c_ghlContactId := c_ghlContactId c\<rparr>
                  \<and> length rows' = length rows \<and> map c_id rows' = map c_id rows)
           \<and> (find (\<lambda>c. c_email c = Some em) rows = None \<longrightarrow> rows' = rows @ [c]))"
proof (rule conjI)
  from ok assms(3) show "contacts_ok rows'" by (rule resolveContact_ok)
next
  from ok have ids: "distinct (map c_id rows)" and emails: "distinct (map c_email rows)"
    by (simp_all add: contacts_ok_def)
  from assms(2) have k: "email_setter em = em" by (rule normalize_email_JStr)
  let ?found = "find (\<lambda>c. c_email c = Some em) rows"
  show "\<exists>c. filter (\<lambda>c. c_email c = Some em) rows' = [c]
           \<and> castString gid = Inr (c_ghlContactId c) \<and> linked c
           \<and> (\<forall>c0. find (\<lambda>c. c_email c = Some em) rows = Some c0 \<longrightarrow>
                  c = c0\<lparr>c_ghlContactId := c_ghlContactId c\<rparr>
                  \<and> length rows' = length rows \<and> map c_id rows' = map c_id rows)
           \<and> (find (\<lambda>c. c_email c = Some em) rows = None \<longrightarrow> rows' = rows @ [c])"
  proof (cases "\<exists>c. ?found = Some c \<and> linked c")
    case True
    then obtain c g where c: "?found = Some c" "c_ghlContactId c = Some g" "g \<noteq> []"
      using linked_iff by blast
    with k have "resolveContact w rows registrant (JStr em) = Proceed (JStr g) rows []"
      by (simp add: resolveContact_linked)
    with assms(3) have r: "gid = JStr g" "rows' = rows" by simp_all
    from emails c(1) have "filter (\<lambda>c. c_email c = Some em) rows = [c]"
      by (rule find_Some_filter)
    moreover from c have "linked c" using linked_iff by blast
    ultimately show ?thesis using r c by simp
  next
    case False
    with k have n: "\<not> (\<exists>c. find (\<lambda>c. c_email c = Some (email_setter em)) rows = Some c \<and> linked c)"
      by simp
    from assms(3) k have s: "saveContactLink w rows ?found registrant (JStr em) gid = Inr rows'"
      unfolding resolveContact_not_linked[OF n]
      by (simp split: prod.splits option.splits sum.splits)
    show ?thesis
    proof (cases ?found)
      case None
      with s assms(4) have "Contact_create rows (JStr em) gid
               (get_prop registrant ''first_name'') (get_prop registrant ''last_name'')
               (get_prop registrant ''phone'') (of_opt (GHL_LOCATION_ID w)) = Inr rows'"
        by (simp add: saveContactLink_def)
      then obtain c where c: "rows' = rows @ [c]" "castEmail (JStr em) = Inr (c_email c)"
        "castString gid = Inr (c_ghlContactId c)" "linked c"
        using Contact_create_Inr by blast
      from c(2) k have "c_email c = Some em" by (simp add: castEmail_def)
      moreover from None have "filter (\<lambda>c. c_email c = Some em) rows = []"
        by (rule find_None_filter)
      ultimately have "filter (\<lambda>c. c_email c = Some em) rows' = [c]" using c(1) by simp
      with c None show ?thesis by simp
    next
      case (Some c0)
      with s assms(4) have "Contact_updateOne rows (c_id c0) gid = Inr rows'"
        by (simp add: saveContactLink_def)
      from Contact_updateOne_Inr[OF this assms(4) ids]
      obtain v where v: "castString gid = Inr v" "truthy (of_opt v)"
        "rows' = map (\<lambda>c. if c_id c = c_id c0 then c\<lparr>c_ghlContactId := v\<rparr> else c) rows"
        by blast
      from emails Some have "filter (\<lambda>c. c_email c = Some em) rows = [c0]"
        by (rule find_Some_filter)
      with v(3) have f: "filter (\<lambda>c. c_email c = Some em) rows' = [c0\<lparr>c_ghlContactId := v\<rparr>]"
        by (simp add: filter_email_relink)
      have m: "map c_id rows' = map c_id rows" unfolding v(3) by (induction rows) simp_all
      have l: "length rows' = length rows" unfolding v(3) by simp
      from v(2) have "linked (c0\<lparr>c_ghlContactId := v\<rparr>)" by (simp add: linked_def)
      with f v(1) m l Some show ?thesis by simp
    qed
  qed
qed


theorem resolution_links_one_record_witness:
  "contacts (snd (ghl_webhook sample_world email_only_config empty_db)) = unlinked_rows
   \<and> contacts_ok unlinked_rows
   \<and> normalize_email (JStr ''Ann@X.com '') = JStr ''ann@x.com''
   \<and> resolveContact sample_world unlinked_rows (registrant_of ''Ann@X.com '') (JStr ''ann@x.com'')
       = Proceed (JStr ''ghl-1'') linked_rows
           [SearchContact (JStr ''ann@x.com''),
            CreateContact (create_payload sample_world (registrant_of ''Ann@X.com ''))]
   \<and> (\<exists>c. filter (\<lambda>c. c_email c = Some ''ann@x.com'') linked_rows = [c]
            \<and> castString (JStr ''ghl-1'') = Inr (c_ghlContactId c) \<and> linked c
            \<and> length linked_rows = length unlinked_rows)"
proof -
  have h0: "contacts (snd (ghl_webhook sample_world email_only_config empty_db)) = unlinked_rows"
    by code_simp
  have h1: "contacts_ok unlinked_rows" by (simp add: contacts_ok_def unlinked_rows_def)
  have h3: "normalize_email (JStr ''Ann@X.com '') = JStr ''ann@x.com''" by code_simp
  have h4: "resolveContact sample_world unlinked_rows (registrant_of ''Ann@X.com '') (JStr ''ann@x.com'')
       = Proceed (JStr ''ghl-1'') linked_rows
           [SearchContact (JStr ''ann@x.com''),
            CreateContact (create_payload sample_world (registrant_of ''Ann@X.com ''))]"
    by code_simp
  have h5: "truthy (JStr ''ghl-1'')" by simp
  have f: "find (\<lambda>c. c_email c = Some ''ann@x.com'') unlinked_rows = Some (hd unlinked_rows)"
    by (simp add: unlinked_rows_def)
  from resolution_links_one_record [OF h1 h3 h4 h5] f
  have "\<exists>c. filter (\<lambda>c. c_email c = Some ''ann@x.com'') linked_rows = [c]
            \<and> castString (JStr ''ghl-1'') = Inr (c_ghlContactId c) \<and> linked c
            \<and> length linked_rows = length unlinked_rows"
    by blast
  with h0 h1 h3 h4 show ?thesis by blast
qed


section \<open>The event ledger\<close>

lemma ZoomEvent_create_Inr:
  assumes "ZoomEvent_create evs eventId eventType email = Inr evs'"
  shows "\<exists>e. evs' = evs @ [e] \<and> castString eventId = Inr (Some (ze_eventId e))
             \<and> ze_eventId e \<notin> ze_eventId ` set evs"
proof -
  from assms obtain i t m where
    i: "required_string (castString eventId) = Inr i"
    and r: "i \<notin> ze_eventId ` set evs"
      "evs' = evs @ [\<lparr>ze_eventId = i, ze_eventType = t, ze_email = m\<rparr>]"
    by (auto simp add: ZoomEvent_create_def split: sum.splits if_splits)
  from i have "castString eventId = Inr (Some i)" by (simp add: required_string_Inr)
  with r show ?thesis by simp
qed

lemma cast_query_castString:
  assumes "castString v = Inr k"
  shows "cast_query castString v = Inr [k]"
  using assms by (cases v) (simp_all add: cast_query_def)

lemma ZoomEvent_findOne_known:
  assumes "castString eventId = Inr (Some s)" and "e \<in> set evs" and "ze_eventId e = s"
  shows "\<exists>x. ZoomEvent_findOne evs eventId = Inr (Some x)"
proof -
  from assms(2,3) have "find (\<lambda>e. Some (ze_eventId e) \<in> set [Some s]) evs \<noteq> None"
    by (auto simp add: find_None_iff)
  with cast_query_castString[OF assms(1)] show ?thesis
    by (auto simp add: ZoomEvent_findOne_def)
qed

lemma ZoomEvent_findOne_mono:
  assumes "ZoomEvent_findOne evs eventId = Inr (Some x)" and "set evs \<subseteq> set evs'"
  shows "\<exists>y. ZoomEvent_findOne evs' eventId = Inr (Some y)"
proof -
  from assms(1) obtain ks where c: "cast_query castString eventId = Inr ks"
    and f: "find (\<lambda>e. Some (ze_eventId e) \<in> set ks) evs = Some x"
    by (auto simp add: ZoomEvent_findOne_def split: sum.splits)
  from f have "x \<in> set evs" "Some (ze_eventId x) \<in> set ks" by (auto simp add: find_Some_iff)
  with assms(2) have "find (\<lambda>e. Some (ze_eventId e) \<in> set ks) evs' \<noteq> None"
    by (auto simp add: find_None_iff)
  with c show ?thesis by (auto simp add: ZoomEvent_findOne_def)
qed

lemma record_and_process_recorded:
  assumes "record_and_process w eventId event payload d = (res, d1, calls)" and "status res = 200"
  shows "\<exists>x. ZoomEvent_findOne (ledger d1) eventId = Inr (Some x)"
proof -
  from assms obtain evs where c: "ZoomEvent_create (ledger d) eventId event (registrantEmail payload) = Inr evs"
    and p: "process_event w event payload (d\<lparr>ledger := evs\<rparr>) = (res, d1, calls)"
    by (auto simp add: record_and_process_def status_internal_server_error split: sum.splits)
  from process_event_ledger[of w event payload "d\<lparr>ledger := evs\<rparr>"] p
  have l: "ledger d1 = evs" by simp
  from ZoomEvent_create_Inr[OF c] obtain e
    where e: "evs = ledger d @ [e]" "castString eventId = Inr (Some (ze_eventId e))"
    by blast
  from e(1) have "e \<in> set evs" by simp
  with e(2) l show ?thesis using ZoomEvent_findOne_known by blast
qed

lemma check_and_process_recorded:
  assumes "check_and_process w eventId event payload d = (res, d1, calls)" and "status res = 200"
    and "truthy eventId"
  shows "\<exists>x. ZoomEvent_findOne (ledger d1) eventId = Inr (Some x)"
proof (cases "ZoomEvent_findOne (ledger d) eventId")
  case (Inl err)
  with assms show ?thesis by (simp add: check_and_process_def status_internal_server_error)
next
  case (Inr found)
  show ?thesis
  proof (cases found)
    case None
    with Inr assms have "record_and_process w eventId event payload d = (res, d1, calls)"
      by (simp add: check_and_process_def)
    then show ?thesis using assms(2) by (rule record_and_process_recorded)
  next
    case (Some x)
    with Inr assms have "d1 = d" by (simp add: check_and_process_def)
    with Some Inr show ?thesis by blast
  qed
qed

lemma check_and_process_duplicate:
  assumes "ZoomEvent_findOne (ledger d) eventId = Inr (Some x)" and "truthy eventId"
  shows "check_and_process w eventId event payload d
           = (\<lparr>status = 200, body = JObj [(''message'', JStr ''Duplicate event'')]\<rparr>, d, [])"
  using assms by (simp add: check_and_process_def)

lemma zoom_webhook_processing:
  assumes "\<not> nullish (req_body req)" and "req_event req \<noteq> JStr ''endpoint.url_validation''"
    and "VERIFY_ZOOM_SIGNATURE w = Some ''true'' \<longrightarrow> verifyZoomSignature w req"
  shows "zoom_webhook w req d = check_and_process w (req_eventId req) (req_event req) (req_payload req) d"
  using assms by (auto simp add: zoom_webhook_def)

lemma zoom_webhook_200_processing:
  assumes "zoom_webhook w req d = (res, d1, calls)" and "status res = 200"
    and "req_event req \<noteq> JStr ''endpoint.url_validation''"
  shows "check_and_process w (req_eventId req) (req_event req) (req_payload req) d = (res, d1, calls)"
proof -
  from assms have "\<not> nullish (req_body req)"
    by (auto simp add: zoom_webhook_def status_internal_server_error)
  moreover from assms have "VERIFY_ZOOM_SIGNATURE w = Some ''true'' \<longrightarrow> verifyZoomSignature w req"
    by (auto simp add: zoom_webhook_def status_internal_server_error split: if_splits)
  ultimately show ?thesis using assms(1,3) by (simp add: zoom_webhook_processing)
qed

text \<open>
  C2. Let a first delivery with an event id be answered 200. A later delivery with the same
  event id that passes the intake gate, run on the database the first one left (or on any
  database whose ledger still holds its entries), is answered 200 ``Duplicate event'',
  sends no request to the remote platform and leaves the database as it is.
\<close>

theorem duplicate_delivery_is_idempotent:
  assumes "zoom_webhook w1 r1 d = (res1, d1, calls1)" and "status res1 = 200"
    and "req_event r1 \<noteq> JStr ''endpoint.url_validation''"
    and "truthy (req_eventId r1)"
    and "req_eventId r2 = req_eventId r1"
    and "\<not> nullish (req_body r2)" and "req_event r2 \<noteq> JStr ''endpoint.url_validation''"
    and "VERIFY_ZOOM_SIGNATURE w2 = Some ''true'' \<longrightarrow> verifyZoomSignature w2 r2"
    and "set (ledger d1) \<subseteq> set (ledger d2)"
  shows "zoom_webhook w2 r2 d2
           = (\<lparr>status = 200, body = JObj [(''message'', JStr ''Duplicate event'')]\<rparr>, d2, [])"
proof -
  from assms(1,2,3) have "check_and_process w1 (req_eventId r1) (req_event r1) (req_payload r1) d
      = (res1, d1, calls1)"
    by (rule zoom_webhook_200_processing)
  from check_and_process_recorded[OF this assms(2,4)] obtain x
    where "ZoomEvent_findOne (ledger d1) (req_eventId r1) = Inr (Some x)"
    by blast
  with assms(9) obtain y where "ZoomEvent_findOne (ledger d2) (req_eventId r1) = Inr (Some y)"
    using ZoomEvent_findOne_mono by blast
  with assms(4,5) have "check_and_process w2 (req_eventId r2) (req_event r2) (req_payload r2) d2
      = (\<lparr>status = 200, body = JObj [(''message'', JStr ''Duplicate event'')]\<rparr>, d2, [])"
    by (simp add: check_and_process_duplicate)
  with assms(6,7,8) show ?thesis by (simp add: zoom_webhook_processing)
qed



subsection \<open>A registration delivered twice\<close>

lemma first_delivery:
  "zoom_webhook sample_world (registration_request ''1700000000'' 555 ''ann@x.com'') empty_db
     = (\<lparr>status = 200, body = JObj [(''message'', JStr ''Webhook received'')]\<rparr>,
        db_after_ann,
        [SearchContact (JStr ''ann@x.com''),
         CreateContact (create_payload sample_world (registrant_of ''ann@x.com'')),
         AddTags (JStr ''ghl-1'') [JStr ''Zoom Registration'', JStr ''zoom registered''],
         AddToWorkflow (JStr ''ghl-1'') ''wf-1'' ''2026-01-05T13:07:59+00:00''])"
  by code_simp

lemma ann_request:
  "req_event (registration_request ts 555 ''ann@x.com'') = JStr ''webinar.registration_created''"
  "req_payload (registration_request ts 555 ''ann@x.com'') = registration_payload 555 ''ann@x.com''"
  "\<not> nullish (req_body (registration_request ts 555 ''ann@x.com''))"
  by (simp_all add: req_event_def req_payload_def registration_request_def webinar_registration_def)

lemma ann_eventId:
  "req_eventId (registration_request ts 555 ''ann@x.com'')
     = JStr ''555_ann@x.com_webinar.registration_created''"
proof -
  have num: "show_int 555 = ''555''" by code_simp
  show ?thesis
    by (simp add: req_eventId_def ann_request deriveEventId_def registration_payload_def
        registrant_of_def registrantEmail_def js_or_def num)
qed

theorem duplicate_delivery_is_idempotent_witness:
  "status (fst (zoom_webhook sample_world (registration_request ''1700000000'' 555 ''ann@x.com'')
                  empty_db)) = 200
   \<and> truthy (req_eventId (registration_request ''1700000000'' 555 ''ann@x.com''))
   \<and> req_eventId (registration_request ''1700000099'' 555 ''ann@x.com'')
       = req_eventId (registration_request ''1700000000'' 555 ''ann@x.com'')
   \<and> zoom_webhook forbidden_world (registration_request ''1700000099'' 555 ''ann@x.com'') db_after_ann
       = (\<lparr>status = 200, body = JObj [(''message'', JStr ''Duplicate event'')]\<rparr>, db_after_ann, [])
   \<and> length (ledger db_after_ann) = 1"
proof -
  let ?r1 = "registration_request ''1700000000'' 555 ''ann@x.com''"
  let ?r2 = "registration_request ''1700000099'' 555 ''ann@x.com''"
  have h2: "status \<lparr>status = 200, body = JObj [(''message'', JStr ''Webhook received'')]\<rparr> = 200"
    by simp
  have h3: "req_event ?r1 \<noteq> JStr ''endpoint.url_validation''" by (simp add: ann_request)
  have h4: "truthy (req_eventId ?r1)" by (simp add: ann_eventId)
  have h5: "req_eventId ?r2 = req_eventId ?r1" by (simp add: ann_eventId)
  have h6: "\<not> nullish (req_body ?r2)" by (simp add: ann_request)
  have h7: "req_event ?r2 \<noteq> JStr ''endpoint.url_validation''" by (simp add: ann_request)
  have h8: "VERIFY_ZOOM_SIGNATURE forbidden_world = Some ''true'' \<longrightarrow>
              verifyZoomSignature forbidden_world ?r2"
    by (simp add: forbidden_world_def sample_world_def)
  have h9: "set (ledger db_after_ann) \<subseteq> set (ledger db_after_ann)" by simp
  from duplicate_delivery_is_idempotent [OF first_delivery h2 h3 h4 h5 h6 h7 h8 h9]
  have "zoom_webhook forbidden_world ?r2 db_after_ann
       = (\<lparr>status = 200, body = JObj [(''message'', JStr ''Duplicate event'')]\<rparr>, db_after_ann, [])" .
  moreover have "status (fst (zoom_webhook sample_world ?r1 empty_db)) = 200"
    by (simp add: first_delivery)
  moreover have "length (ledger db_after_ann) = 1" by (simp add: db_after_ann_def)
  ultimately show ?thesis using h4 h5 by blast
qed

section \<open>A duplicate-key failure of the ledger insert\<close>

lemma process_event_response_received:
  "fst (process_event w event payload d)
     = \<lparr>status = 200, body = JObj [(''message'', JStr ''Webhook received'')]\<rparr>"
  by (simp add: process_event_def Let_def split: prod.splits)

text \<open>
  C3 (amended). A duplicate-key failure of the ledger insert is not reinterpreted: it
  reaches the handler's \<open>catch\<close> and is answered 500, the event is not processed and the
  database is unchanged. The response ``Duplicate event'' comes only from the existence
  check that precedes the insert.
\<close>

theorem duplicate_key_insert_answers_500:
  "(ZoomEvent_create (ledger d) eventId event (registrantEmail payload) = Inl DuplicateKey \<longrightarrow>
      record_and_process w eventId event payload d = (internal_server_error, d, []))
   \<and> status internal_server_error = 500
   \<and> (fst (check_and_process w eventId event payload d)
         = \<lparr>status = 200, body = JObj [(''message'', JStr ''Duplicate event'')]\<rparr> \<longrightarrow>
       truthy eventId \<and> (\<exists>x. ZoomEvent_findOne (ledger d) eventId = Inr (Some x)))"
proof (intro conjI impI)
  assume "ZoomEvent_create (ledger d) eventId event (registrantEmail payload) = Inl DuplicateKey"
  then show "record_and_process w eventId event payload d = (internal_server_error, d, [])"
    by (simp add: record_and_process_def)
next
  show "status internal_server_error = 500" by (rule status_internal_server_error)
next
  assume a: "fst (check_and_process w eventId event payload d)
         = \<lparr>status = 200, body = JObj [(''message'', JStr ''Duplicate event'')]\<rparr>"
  show "truthy eventId"
  proof (rule ccontr)
    assume "\<not> truthy eventId"
    with a show False by (simp add: check_and_process_def process_event_response_received)
  qed
next
  assume a: "fst (check_and_process w eventId event payload d)
         = \<lparr>status = 200, body = JObj [(''message'', JStr ''Duplicate event'')]\<rparr>"
  show "\<exists>x. ZoomEvent_findOne (ledger d) eventId = Inr (Some x)"
  proof (rule ccontr)
    assume n: "\<not> (\<exists>x. ZoomEvent_findOne (ledger d) eventId = Inr (Some x))"
    have "fst (record_and_process w eventId event payload d)
            \<noteq> \<lparr>status = 200, body = JObj [(''message'', JStr ''Duplicate event'')]\<rparr>"
      by (simp add: record_and_process_def process_event_response_received
          internal_server_error_def split: sum.splits)
    with a n show False
      by (auto simp add: check_and_process_def process_event_response_received
          internal_server_error_def split: if_splits sum.splits option.splits)
  qed
qed

theorem duplicate_key_insert_counterexample:
  "ZoomEvent_findOne (ledger empty_db)
       (req_eventId (registration_request ''1700000000'' 555 ''ann@x.com'')) = Inr None
   \<and> fst (snd (zoom_webhook sample_world (registration_request ''1700000000'' 555 ''ann@x.com'')
                  empty_db)) = db_after_ann
   \<and> ZoomEvent_create (ledger db_after_ann)
       (req_eventId (registration_request ''1700000000'' 555 ''ann@x.com''))
       (req_event (registration_request ''1700000000'' 555 ''ann@x.com''))
       (registrantEmail (req_payload (registration_request ''1700000000'' 555 ''ann@x.com'')))
       = Inl DuplicateKey
   \<and> status (fst (record_and_process sample_world
                    (req_eventId (registration_request ''1700000000'' 555 ''ann@x.com''))
                    (req_event (registration_request ''1700000000'' 555 ''ann@x.com''))
                    (req_payload (registration_request ''1700000000'' 555 ''ann@x.com''))
                    db_after_ann)) = 500"
proof -
  have e: "registrantEmail (registration_payload 555 ''ann@x.com'') = JStr ''ann@x.com''"
    by (simp add: registration_payload_def registrant_of_def registrantEmail_def js_or_def)
  have 1: "ZoomEvent_findOne (ledger empty_db)
       (req_eventId (registration_request ''1700000000'' 555 ''ann@x.com'')) = Inr None"
    by (simp add: ann_eventId ZoomEvent_findOne_def cast_query_def empty_db_def)
  have 2: "fst (snd (zoom_webhook sample_world (registration_request ''1700000000'' 555 ''ann@x.com'')
                  empty_db)) = db_after_ann"
    by (simp add: first_delivery)
  have 3: "ZoomEvent_create (ledger db_after_ann)
       (req_eventId (registration_request ''1700000000'' 555 ''ann@x.com''))
       (req_event (registration_request ''1700000000'' 555 ''ann@x.com''))
       (registrantEmail (req_payload (registration_request ''1700000000'' 555 ''ann@x.com'')))
       = Inl DuplicateKey"
    by (simp add: ann_eventId ann_request e ZoomEvent_create_def required_string_def
        optional_string_def db_after_ann_def)
  from 3 have 4: "status (fst (record_and_process sample_world
                    (req_eventId (registration_request ''1700000000'' 555 ''ann@x.com''))
                    (req_event (registration_request ''1700000000'' 555 ''ann@x.com''))
                    (req_payload (registration_request ''1700000000'' 555 ''ann@x.com''))
                    db_after_ann)) = 500"
    by (simp add: record_and_process_def status_internal_server_error)
  from 1 2 3 4 show ?thesis by blast
qed

theorem duplicate_key_insert_answers_500_witness:
  "ZoomEvent_create (ledger db_after_ann) (JStr ''555_ann@x.com_webinar.registration_created'')
       webinar_registration (registrantEmail (registration_payload 555 ''ann@x.com''))
     = Inl DuplicateKey
   \<and> record_and_process forbidden_world (JStr ''555_ann@x.com_webinar.registration_created'')
       webinar_registration (registration_payload 555 ''ann@x.com'') db_after_ann
     = (internal_server_error, db_after_ann, [])
   \<and> fst (check_and_process sample_world (JStr ''555_ann@x.com_webinar.registration_created'')
            webinar_registration (registration_payload 555 ''ann@x.com'') db_after_ann)
     = \<lparr>status = 200, body = JObj [(''message'', JStr ''Duplicate event'')]\<rparr>
   \<and> (\<exists>x. ZoomEvent_findOne (ledger db_after_ann)
              (JStr ''555_ann@x.com_webinar.registration_created'') = Inr (Some x))"
proof -
  let ?id = "JStr ''555_ann@x.com_webinar.registration_created''"
  have e: "registrantEmail (registration_payload 555 ''ann@x.com'') = JStr ''ann@x.com''"
    by (simp add: registration_payload_def registrant_of_def registrantEmail_def js_or_def)
  have h1: "ZoomEvent_create (ledger db_after_ann) ?id webinar_registration
              (registrantEmail (registration_payload 555 ''ann@x.com'')) = Inl DuplicateKey"
    by (simp add: e ZoomEvent_create_def required_string_def optional_string_def
        db_after_ann_def webinar_registration_def)
  have h2: "fst (check_and_process sample_world ?id webinar_registration
                   (registration_payload 555 ''ann@x.com'') db_after_ann)
     = \<lparr>status = 200, body = JObj [(''message'', JStr ''Duplicate event'')]\<rparr>"
    by (simp add: check_and_process_def ZoomEvent_findOne_def cast_query_def db_after_ann_def)
  note t = duplicate_key_insert_answers_500
    [where d = db_after_ann and eventId = ?id and event = webinar_registration
       and payload = "registration_payload 555 ''ann@x.com''"]
  from t [where w = forbidden_world, THEN conjunct1] h1
  have r1: "record_and_process forbidden_world ?id webinar_registration
              (registration_payload 555 ''ann@x.com'') db_after_ann
            = (internal_server_error, db_after_ann, [])"
    by blast
  from t [where w = sample_world, THEN conjunct2, THEN conjunct2] h2
  have r2: "\<exists>x. ZoomEvent_findOne (ledger db_after_ann) ?id = Inr (Some x)" by blast
  from h1 r1 h2 r2 show ?thesis by blast
qed



section \<open>Responses of the event webhook\<close>

lemma record_and_process_500:
  assumes "status (fst (record_and_process w eventId event payload d)) = 500"
  shows "record_and_process w eventId event payload d = (internal_server_error, d, [])"
proof (cases "ZoomEvent_create (ledger d) eventId event (registrantEmail payload)")
  case (Inl e)
  then show ?thesis by (simp add: record_and_process_def)
next
  case (Inr evs)
  with assms process_event_status[of w event payload "d\<lparr>ledger := evs\<rparr>"]
  show ?thesis by (simp add: record_and_process_def)
qed

lemma check_and_process_500:
  assumes "status (fst (check_and_process w eventId event payload d)) = 500"
  shows "check_and_process w eventId event payload d = (internal_server_error, d, [])"
proof (cases "truthy eventId")
  case False
  with assms process_event_status[of w event payload d]
  show ?thesis by (simp add: check_and_process_def)
next
  case True
  show ?thesis
  proof (cases "ZoomEvent_findOne (ledger d) eventId")
    case (Inl e)
    with True show ?thesis by (simp add: check_and_process_def)
  next
    case (Inr found)
    show ?thesis
    proof (cases found)
      case None
      with True Inr have eq: "check_and_process w eventId event payload d
                                = record_and_process w eventId event payload d"
        by (simp add: check_and_process_def)
      from assms show ?thesis unfolding eq by (rule record_and_process_500)
    next
      case (Some x)
      with True Inr assms show ?thesis by (simp add: check_and_process_def)
    qed
  qed
qed

lemma zoom_webhook_500:
  assumes "status (fst (zoom_webhook w req d)) = 500"
  shows "zoom_webhook w req d = (internal_server_error, d, [])"
proof (cases "\<not> nullish (req_body req) \<and> req_event req \<noteq> JStr ''endpoint.url_validation''
              \<and> (VERIFY_ZOOM_SIGNATURE w = Some ''true'' \<longrightarrow> verifyZoomSignature w req)")
  case True
  then have eq: "zoom_webhook w req d
               = check_and_process w (req_eventId req) (req_event req) (req_payload req) d"
    by (simp add: zoom_webhook_processing)
  from assms show ?thesis unfolding eq by (rule check_and_process_500)
next
  case False
  with assms show ?thesis
    by (auto simp add: zoom_webhook_def Let_def split: json.splits option.splits if_splits)
qed

lemma record_and_process_sent:
  assumes "snd (snd (record_and_process w eventId event payload d)) \<noteq> []"
  shows "fst (record_and_process w eventId event payload d)
           = \<lparr>status = 200, body = JObj [(''message'', JStr ''Webhook received'')]\<rparr>
         \<and> (\<exists>x. ZoomEvent_findOne (ledger (fst (snd (record_and_process w eventId event payload d))))
                  eventId = Inr (Some x))"
proof (cases "ZoomEvent_create (ledger d) eventId event (registrantEmail payload)")
  case (Inl e)
  with assms show ?thesis by (simp add: record_and_process_def)
next
  case (Inr evs)
  then have r: "record_and_process w eventId event payload d
                  = process_event w event payload (d\<lparr>ledger := evs\<rparr>)"
    by (simp add: record_and_process_def)
  from ZoomEvent_create_Inr[OF Inr] obtain e
    where e: "evs = ledger d @ [e]" "castString eventId = Inr (Some (ze_eventId e))"
    by blast
  from e(1) have "e \<in> set evs" by simp
  with e(2) have "\<exists>x. ZoomEvent_findOne evs eventId = Inr (Some x)"
    using ZoomEvent_findOne_known by blast
  moreover have "ledger (fst (snd (process_event w event payload (d\<lparr>ledger := evs\<rparr>)))) = evs"
    by (simp add: process_event_ledger)
  ultimately show ?thesis unfolding r by (simp add: process_event_response_received)
qed

lemma check_and_process_sent:
  assumes "snd (snd (check_and_process w eventId event payload d)) \<noteq> []"
  shows "fst (check_and_process w eventId event payload d)
           = \<lparr>status = 200, body = JObj [(''message'', JStr ''Webhook received'')]\<rparr>
         \<and> (truthy eventId \<longrightarrow>
              (\<exists>x. ZoomEvent_findOne (ledger (fst (snd (check_and_process w eventId event payload d))))
                     eventId = Inr (Some x)))"
proof (cases "truthy eventId")
  case False
  then show ?thesis by (simp add: check_and_process_def process_event_response_received)
next
  case True
  show ?thesis
  proof (cases "ZoomEvent_findOne (ledger d) eventId")
    case (Inl e)
    with True assms show ?thesis by (simp add: check_and_process_def)
  next
    case (Inr found)
    show ?thesis
    proof (cases found)
      case None
      with True Inr have eq: "check_and_process w eventId event payload d
                                = record_and_process w eventId event payload d"
        by (simp add: check_and_process_def)
      from assms show ?thesis unfolding eq using record_and_process_sent by blast
    next
      case (Some x)
      with True Inr assms show ?thesis by (simp add: check_and_process_def)
    qed
  qed
qed

lemma zoom_webhook_sent:
  assumes "snd (snd (zoom_webhook w req d)) \<noteq> []"
  shows "fst (zoom_webhook w req d)
           = \<lparr>status = 200, body = JObj [(''message'', JStr ''Webhook received'')]\<rparr>
         \<and> (truthy (req_eventId req) \<longrightarrow>
              (\<exists>x. ZoomEvent_findOne (ledger (fst (snd (zoom_webhook w req d)))) (req_eventId req)
                     = Inr (Some x)))"
proof (cases "\<not> nullish (req_body req) \<and> req_event req \<noteq> JStr ''endpoint.url_validation''
              \<and> (VERIFY_ZOOM_SIGNATURE w = Some ''true'' \<longrightarrow> verifyZoomSignature w req)")
  case True
  then have eq: "zoom_webhook w req d
               = check_and_process w (req_eventId req) (req_event req) (req_payload req) d"
    by (simp add: zoom_webhook_processing)
  from assms show ?thesis unfolding eq by (rule check_and_process_sent)
next
  case False
  with assms show ?thesis
    by (auto simp add: zoom_webhook_def Let_def split: json.splits option.splits if_splits)
qed

lemma zoom_webhook_401_iff:
  "status (fst (zoom_webhook w req d)) = 401 \<longleftrightarrow>
     \<not> nullish (req_body req) \<and> req_event req \<noteq> JStr ''endpoint.url_validation''
     \<and> VERIFY_ZOOM_SIGNATURE w = Some ''true'' \<and> \<not> verifyZoomSignature w req"
  using check_and_process_status[of w "req_eventId req" "req_event req" "req_payload req" d]
  by (auto simp add: zoom_webhook_def Let_def status_internal_server_error
      split: json.splits option.splits)

lemma zoom_webhook_400_iff:
  "status (fst (zoom_webhook w req d)) = 400 \<longleftrightarrow>
     \<not> nullish (req_body req) \<and> req_event req = JStr ''endpoint.url_validation''
     \<and> (\<not> truthy (get_prop (req_payload req) ''plainToken'')
          \<or> \<not> truthy (of_opt (ZOOM_SECRET_TOKEN w)))"
  using check_and_process_status[of w "req_eventId req" "req_event req" "req_payload req" d]
  by (auto simp add: zoom_webhook_def Let_def status_internal_server_error
      split: json.splits option.splits)

lemma zoom_webhook_ledger_exception:
  assumes "\<not> nullish (req_body req)" and "req_event req \<noteq> JStr ''endpoint.url_validation''"
    and "VERIFY_ZOOM_SIGNATURE w = Some ''true'' \<longrightarrow> verifyZoomSignature w req"
    and "truthy (req_eventId req)" and "\<not> query_operators (req_eventId req)"
    and "ZoomEvent_findOne (ledger d) (req_eventId req) = Inl e
         \<or> ZoomEvent_findOne (ledger d) (req_eventId req) = Inr None
            \<and> ZoomEvent_create (ledger d) (req_eventId req) (req_event req)
                 (registrantEmail (req_payload req)) = Inl e"
  shows "zoom_webhook w req d = (internal_server_error, d, [])"
  using assms by (auto simp add: zoom_webhook_def check_and_process_def record_and_process_def)

text \<open>
  C8 (amended). The status of every response of \<^verbatim>\<open>/zoom-webhook\<close> is 200, 400, 401 or 500.
  For an event type that is not an object or an array, it is 401 exactly when signature
  verification is switched on and fails. It is 400 exactly when the validation handshake
  lacks its token or the secret. An exception of the ledger lookup or of the ledger insert
  (for an event id that is not a condition of query operators) is answered 500, before
  anything is stored or sent. A failure while the registration is processed is not answered
  500: a response with status 500 has the one fixed body and belongs to a delivery that sent
  no request to the remote platform, and a delivery that sent a request is answered 200
  ``Webhook received'' and leaves its event id in the ledger, so that the idempotency check
  of a later delivery with that event id answers ``Duplicate event''. The response does not
  depend on what the remote platform answers.
\<close>

theorem processing_failures_are_not_answered_500:
  "status (fst (zoom_webhook w req d)) \<in> {200, 400, 401, 500}
   \<and> (primitive (req_event req) \<longrightarrow>
        (status (fst (zoom_webhook w req d)) = 401 \<longleftrightarrow>
           \<not> nullish (req_body req) \<and> req_event req \<noteq> JStr ''endpoint.url_validation''
           \<and> VERIFY_ZOOM_SIGNATURE w = Some ''true'' \<and> \<not> verifyZoomSignature w req))
   \<and> (status (fst (zoom_webhook w req d)) = 400 \<longleftrightarrow>
        \<not> nullish (req_body req) \<and> req_event req = JStr ''endpoint.url_validation''
        \<and> (\<not> truthy (get_prop (req_payload req) ''plainToken'')
             \<or> \<not> truthy (of_opt (ZOOM_SECRET_TOKEN w))))
   \<and> (\<not> nullish (req_body req) \<and> req_event req \<noteq> JStr ''endpoint.url_validation''
        \<and> (VERIFY_ZOOM_SIGNATURE w = Some ''true'' \<longrightarrow> verifyZoomSignature w req)
        \<and> truthy (req_eventId req) \<and> \<not> query_operators (req_eventId req)
        \<and> (ZoomEvent_findOne (ledger d) (req_eventId req) = Inl e
             \<or> ZoomEvent_findOne (ledger d) (req_eventId req) = Inr None
                \<and> ZoomEvent_create (ledger d) (req_eventId req) (req_event req)
                     (registrantEmail (req_payload req)) = Inl e) \<longrightarrow>
        zoom_webhook w req d = (internal_server_error, d, []))
   \<and> status internal_server_error = 500
   \<and> (status (fst (zoom_webhook w req d)) = 500 \<longrightarrow>
        fst (zoom_webhook w req d) = internal_server_error
        \<and> snd (snd (zoom_webhook w req d)) = [])
   \<and> (snd (snd (zoom_webhook w req d)) \<noteq> [] \<longrightarrow>
        fst (zoom_webhook w req d)
          = \<lparr>status = 200, body = JObj [(''message'', JStr ''Webhook received'')]\<rparr>
        \<and> (truthy (req_eventId req) \<longrightarrow>
             check_and_process w' (req_eventId req) event' payload' (fst (snd (zoom_webhook w req d)))
               = (\<lparr>status = 200, body = JObj [(''message'', JStr ''Duplicate event'')]\<rparr>,
                  fst (snd (zoom_webhook w req d)), [])))
   \<and> fst (zoom_webhook (w\<lparr>ghl_get_contacts := a, ghl_post_contacts := b, ghl_post_tags := c,
                            ghl_post_workflow := f, now := t\<rparr>) req d)
       = fst (zoom_webhook w req d)"
proof (intro conjI)
  show "status (fst (zoom_webhook w req d)) \<in> {200, 400, 401, 500}"
    by (rule zoom_webhook_status)
next
  show "primitive (req_event req) \<longrightarrow>
        (status (fst (zoom_webhook w req d)) = 401 \<longleftrightarrow>
           \<not> nullish (req_body req) \<and> req_event req \<noteq> JStr ''endpoint.url_validation''
           \<and> VERIFY_ZOOM_SIGNATURE w = Some ''true'' \<and> \<not> verifyZoomSignature w req)"
    using zoom_webhook_401_iff by blast
next
  show "status (fst (zoom_webhook w req d)) = 400 \<longleftrightarrow>
        \<not> nullish (req_body req) \<and> req_event req = JStr ''endpoint.url_validation''
        \<and> (\<not> truthy (get_prop (req_payload req) ''plainToken'')
             \<or> \<not> truthy (of_opt (ZOOM_SECRET_TOKEN w)))"
    by (rule zoom_webhook_400_iff)
next
  show "\<not> nullish (req_body req) \<and> req_event req \<noteq> JStr ''endpoint.url_validation''
        \<and> (VERIFY_ZOOM_SIGNATURE w = Some ''true'' \<longrightarrow> verifyZoomSignature w req)
        \<and> truthy (req_eventId req) \<and> \<not> query_operators (req_eventId req)
        \<and> (ZoomEvent_findOne (ledger d) (req_eventId req) = Inl e
             \<or> ZoomEvent_findOne (ledger d) (req_eventId req) = Inr None
                \<and> ZoomEvent_create (ledger d) (req_eventId req) (req_event req)
                     (registrantEmail (req_payload req)) = Inl e) \<longrightarrow>
        zoom_webhook w req d = (internal_server_error, d, [])"
    using zoom_webhook_ledger_exception by blast
next
  show "status internal_server_error = 500" by (rule status_internal_server_error)
next
  show "status (fst (zoom_webhook w req d)) = 500 \<longrightarrow>
        fst (zoom_webhook w req d) = internal_server_error
        \<and> snd (snd (zoom_webhook w req d)) = []"
    by (simp add: zoom_webhook_500)
next
  show "snd (snd (zoom_webhook w req d)) \<noteq> [] \<longrightarrow>
        fst (zoom_webhook w req d)
          = \<lparr>status = 200, body = JObj [(''message'', JStr ''Webhook received'')]\<rparr>
        \<and> (truthy (req_eventId req) \<longrightarrow>
             check_and_process w' (req_eventId req) event' payload' (fst (snd (zoom_webhook w req d)))
               = (\<lparr>status = 200, body = JObj [(''message'', JStr ''Duplicate event'')]\<rparr>,
                  fst (snd (zoom_webhook w req d)), []))"
    using zoom_webhook_sent check_and_process_duplicate by blast
next
  show "fst (zoom_webhook (w\<lparr>ghl_get_contacts := a, ghl_post_contacts := b, ghl_post_tags := c,
                            ghl_post_workflow := f, now := t\<rparr>) req d)
       = fst (zoom_webhook w req d)"
    by (rule zoom_webhook_response)
qed

subsection \<open>A registration processed while the remote platform is down\<close>

lemma outage_delivery:
  "zoom_webhook outage_world (registration_request ''1700000000'' 555 ''ann@x.com'') empty_db
     = (\<lparr>status = 200, body = JObj [(''message'', JStr ''Webhook received'')]\<rparr>,
        db_after_outage,
        [SearchContact (JStr ''ann@x.com''),
         CreateContact (create_payload outage_world (registrant_of ''ann@x.com''))])"
  by code_simp

text \<open>
  The remote platform answers nothing: the search and the creation fail, no contact is
  resolved, stored or tagged. The delivery is answered 200 and its event is recorded. When
  it is delivered again, with the remote platform back, it is a duplicate: nothing is sent.
\<close>

theorem processing_failure_counterexample:
  "zoom_webhook outage_world (registration_request ''1700000000'' 555 ''ann@x.com'') empty_db
     = (\<lparr>status = 200, body = JObj [(''message'', JStr ''Webhook received'')]\<rparr>,
        db_after_outage,
        [SearchContact (JStr ''ann@x.com''),
         CreateContact (create_payload outage_world (registrant_of ''ann@x.com''))])
   \<and> contacts db_after_outage = []
   \<and> zoom_webhook sample_world (registration_request ''1700000099'' 555 ''ann@x.com'') db_after_outage
     = (\<lparr>status = 200, body = JObj [(''message'', JStr ''Duplicate event'')]\<rparr>,
        db_after_outage, [])"
proof -
  have 1: "zoom_webhook outage_world (registration_request ''1700000000'' 555 ''ann@x.com'') empty_db
     = (\<lparr>status = 200, body = JObj [(''message'', JStr ''Webhook received'')]\<rparr>,
        db_after_outage,
        [SearchContact (JStr ''ann@x.com''),
         CreateContact (create_payload outage_world (registrant_of ''ann@x.com''))])"
    by code_simp
  have 2: "contacts db_after_outage = []" by (simp add: db_after_outage_def)
  have 3: "zoom_webhook sample_world (registration_request ''1700000099'' 555 ''ann@x.com'')
             db_after_outage
     = (\<lparr>status = 200, body = JObj [(''message'', JStr ''Duplicate event'')]\<rparr>,
        db_after_outage, [])"
    by code_simp
  from 1 2 3 show ?thesis by blast
qed

theorem processing_failures_are_not_answered_500_witness:
  "ZoomEvent_create (ledger empty_db) (req_eventId untyped_request) (req_event untyped_request)
       (registrantEmail (req_payload untyped_request)) = Inl ValidationError
   \<and> zoom_webhook sample_world untyped_request empty_db = (internal_server_error, empty_db, [])
   \<and> status (fst (zoom_webhook sample_world untyped_request empty_db)) = 500
   \<and> snd (snd (zoom_webhook sample_world untyped_request empty_db)) = []
   \<and> status (fst (zoom_webhook (sample_world\<lparr>VERIFY_ZOOM_SIGNATURE := Some ''true''\<rparr>)
                     (registration_request ''1700000000'' 555 ''ann@x.com'') empty_db)) = 401
   \<and> snd (snd (zoom_webhook outage_world (registration_request ''1700000000'' 555 ''ann@x.com'')
                  empty_db)) \<noteq> []
   \<and> fst (zoom_webhook outage_world (registration_request ''1700000000'' 555 ''ann@x.com'') empty_db)
       = \<lparr>status = 200, body = JObj [(''message'', JStr ''Webhook received'')]\<rparr>
   \<and> check_and_process sample_world
         (req_eventId (registration_request ''1700000000'' 555 ''ann@x.com''))
         webinar_registration (registration_payload 555 ''ann@x.com'')
         (fst (snd (zoom_webhook outage_world
                      (registration_request ''1700000000'' 555 ''ann@x.com'') empty_db)))
       = (\<lparr>status = 200, body = JObj [(''message'', JStr ''Duplicate event'')]\<rparr>,
          fst (snd (zoom_webhook outage_world
                      (registration_request ''1700000000'' 555 ''ann@x.com'') empty_db)), [])"
proof -
  let ?ann = "registration_request ''1700000000'' 555 ''ann@x.com''"
  let ?strict = "sample_world\<lparr>VERIFY_ZOOM_SIGNATURE := Some ''true''\<rparr>"
  have ev: "req_event untyped_request = JUndefined"
    by (simp add: req_event_def untyped_request_def)
  have pl: "req_payload untyped_request = payload_without_email"
    by (simp add: req_payload_def untyped_request_def)
  have id: "req_eventId untyped_request = JStr ''m-uuid-1''"
    by (simp add: req_eventId_def ev pl deriveEventId_def payload_without_email_def
        registrantEmail_def js_or_def)
  have em: "registrantEmail payload_without_email = JUndefined"
    by (simp add: payload_without_email_def registrantEmail_def js_or_def)
  have h1: "\<not> nullish (req_body untyped_request)" by (simp add: untyped_request_def)
  have h2: "VERIFY_ZOOM_SIGNATURE sample_world = Some ''true'' \<longrightarrow>
              verifyZoomSignature sample_world untyped_request"
    by (simp add: sample_world_def)
  have h3: "ZoomEvent_findOne (ledger empty_db) (req_eventId untyped_request) = Inr None"
    by (simp add: id ZoomEvent_findOne_def cast_query_def empty_db_def)
  have h4: "ZoomEvent_create (ledger empty_db) (req_eventId untyped_request)
              (req_event untyped_request) (registrantEmail (req_payload untyped_request))
            = Inl ValidationError"
    by (simp add: id ev pl em ZoomEvent_create_def required_string_def)
  note failing = processing_failures_are_not_answered_500
    [where w = sample_world and req = untyped_request and d = empty_db and e = ValidationError]
  have h5: "\<not> query_operators (req_eventId untyped_request)" by (simp add: id)
  from failing [THEN conjunct2, THEN conjunct2, THEN conjunct2, THEN conjunct1] h1 h2 h3 h4 h5
  have r1: "zoom_webhook sample_world untyped_request empty_db
              = (internal_server_error, empty_db, [])"
    by (simp add: ev id)
  from r1 have f1: "status (fst (zoom_webhook sample_world untyped_request empty_db)) = 500"
    by (simp add: status_internal_server_error)
  from failing [THEN conjunct2, THEN conjunct2, THEN conjunct2, THEN conjunct2, THEN conjunct2,
      THEN conjunct1] f1
  have f2: "snd (snd (zoom_webhook sample_world untyped_request empty_db)) = []" by blast
  have g1: "primitive (req_event ?ann)" by (simp add: ann_request)
  have g2: "\<not> nullish (req_body ?ann)" by (simp add: ann_request)
  have g3: "req_event ?ann \<noteq> JStr ''endpoint.url_validation''" by (simp add: ann_request)
  have g4: "VERIFY_ZOOM_SIGNATURE ?strict = Some ''true''" by simp
  have g5: "\<not> verifyZoomSignature ?strict ?ann"
    by (simp add: verifyZoomSignature_def registration_request_def)
  note unsigned = processing_failures_are_not_answered_500
    [where w = ?strict and req = ?ann and d = empty_db]
  from unsigned [THEN conjunct2, THEN conjunct1] g1 g2 g3 g4 g5
  have r2: "status (fst (zoom_webhook ?strict ?ann empty_db)) = 401" by blast
  have s1: "snd (snd (zoom_webhook outage_world ?ann empty_db)) \<noteq> []"
    by (simp add: outage_delivery)
  have s2: "truthy (req_eventId ?ann)" by (simp add: ann_eventId)
  note outage = processing_failures_are_not_answered_500
    [where w = outage_world and req = ?ann and d = empty_db and w' = sample_world
       and event' = webinar_registration and payload' = "registration_payload 555 ''ann@x.com''"]
  from outage [THEN conjunct2, THEN conjunct2, THEN conjunct2, THEN conjunct2, THEN conjunct2,
      THEN conjunct2, THEN conjunct1] s1 s2
  have r3: "fst (zoom_webhook outage_world ?ann empty_db)
       = \<lparr>status = 200, body = JObj [(''message'', JStr ''Webhook received'')]\<rparr>
     \<and> check_and_process sample_world (req_eventId ?ann) webinar_registration
           (registration_payload 555 ''ann@x.com'')
           (fst (snd (zoom_webhook outage_world ?ann empty_db)))
         = (\<lparr>status = 200, body = JObj [(''message'', JStr ''Duplicate event'')]\<rparr>,
            fst (snd (zoom_webhook outage_world ?ann empty_db)), [])"
    by blast
  from h4 r1 f1 f2 r2 s1 r3 show ?thesis by blast
qed


section \<open>Configuration intake\<close>

lemma sanitize_email_blank: "trim s = [] \<Longrightarrow> sanitize_email (JStr s) = JUndefined"
  by (simp add: sanitize_email_def)

lemma ghl_webhook_400_iff:
  "status (fst (ghl_webhook w data d)) = 400 \<longleftrightarrow>
     \<not> nullish data
     \<and> \<not> truthy (sanitize_email (get_prop (js_or (get_prop data ''customData'') data) ''email''))
     \<and> \<not> truthy (get_prop (js_or (get_prop data ''customData'') data) ''contactId'')"
  by (auto simp add: ghl_webhook_def Let_def status_internal_server_error split: sum.splits)

lemma trim_Nil_iff: "trim s = [] \<longleftrightarrow> (\<forall>c\<in>set s. is_space c)"
proof -
  have "trim s = [] \<longleftrightarrow> (\<forall>c\<in>set (dropWhile is_space s). is_space c)"
    by (simp add: trim_def dropWhile_eq_Nil_conv)
  also have "\<dots> \<longleftrightarrow> dropWhile is_space s = []"
  proof
    assume a: "\<forall>c\<in>set (dropWhile is_space s). is_space c"
    show "dropWhile is_space s = []"
    proof (rule ccontr)
      assume n: "dropWhile is_space s \<noteq> []"
      then have "\<not> is_space (hd (dropWhile is_space s))" by (rule hd_dropWhile)
      moreover from n have "hd (dropWhile is_space s) \<in> set (dropWhile is_space s)" by simp
      ultimately show False using a by blast
    qed
  next
    assume e: "dropWhile is_space s = []"
    show "\<forall>c\<in>set (dropWhile is_space s). is_space c" unfolding e by simp
  qed
  also have "\<dots> \<longleftrightarrow> (\<forall>c\<in>set s. is_space c)" by (simp add: dropWhile_eq_Nil_conv)
  finally show ?thesis .
qed

lemma digit_not_space: "(48::nat) \<le> of_char c \<and> of_char c \<le> (57::nat) \<Longrightarrow> \<not> is_space c"
  by (auto simp add: is_space_def)

lemma show_nat_not_blank: "trim (show_nat n) \<noteq> []"
proof -
  from show_nat_nonempty[of n] obtain c where "c \<in> set (show_nat n)"
    by (cases "show_nat n") auto
  moreover from this have "\<not> is_space c" using show_nat_chars digit_not_space by blast
  ultimately show ?thesis by (auto simp add: trim_Nil_iff)
qed

lemma show_int_not_blank: "trim (show_int i) \<noteq> []"
proof (cases "i < 0")
  case True
  have "\<not> is_space (CHR ''-'')" by (simp add: is_space_def)
  with True show ?thesis by (auto simp add: show_int_def trim_Nil_iff)
next
  case False
  then show ?thesis by (simp add: show_int_def show_nat_not_blank)
qed

lemma castEmail_sanitized:
  assumes "\<forall>kvs. v \<noteq> JObj kvs"
  shows "castEmail (sanitize_email v) \<noteq> Inr (Some [])"
proof (cases v)
  case (JBool b)
  have "trim ''true'' \<noteq> []" "trim ''false'' \<noteq> []" by (simp_all add: trim_Nil_iff is_space_def)
  with JBool show ?thesis
    by (simp add: sanitize_email_def castEmail_def email_setter_def toLowerCase_Nil_iff)
next
  case (JNum n)
  then show ?thesis
    by (simp add: sanitize_email_def castEmail_def email_setter_def toLowerCase_Nil_iff
        show_int_not_blank)
next
  case (JStr s)
  then show ?thesis
    by (simp add: sanitize_email_def castEmail_def email_setter_def toLowerCase_Nil_iff)
next
  case (JObj kvs)
  with assms show ?thesis by simp
qed (simp_all add: sanitize_email_def castEmail_def)

lemma cast_update_email:
  assumes "cast_update u = Inr f"
  shows "c_email (f c) = c_email c \<or> castEmail (u_email u) = Inr (c_email (f c))"
  using assms
  by (auto simp add: cast_update_def set_path_def split: sum.splits)

lemma filter_doc_email:
  "c_email (filter_doc f i) = None \<or> (\<exists>v. f = ByEmail v \<and> castEmail v = Inr (c_email (filter_doc f i)))"
  by (cases f) (auto simp add: filter_doc_def Let_def split: sum.splits)

lemma Contact_findOneAndUpdate_emails:
  assumes "Contact_findOneAndUpdate rows f u = Inr rows'" and "k \<in> c_email ` set rows'"
  shows "k \<in> c_email ` set rows \<or> k = None \<or> castEmail (u_email u) = Inr k
         \<or> (\<exists>v. f = ByEmail v \<and> castEmail v = Inr k)"
proof -
  from assms(1) obtain matches apply_update where
    m: "cast_filter f = Inr matches" and a: "cast_update u = Inr apply_update"
    by (auto simp add: Contact_findOneAndUpdate_def split: sum.splits)
  show ?thesis
  proof (cases "find matches rows")
    case None
    let ?doc = "apply_update (filter_doc f (fresh_id rows))"
    from assms(1) m a None have "rows' = rows @ [?doc]"
      by (auto simp add: Contact_findOneAndUpdate_def Let_def split: if_splits)
    with assms(2) have "k \<in> c_email ` set rows \<or> k = c_email ?doc" by auto
    then show ?thesis
      using cast_update_email[OF a, of "filter_doc f (fresh_id rows)"]
        filter_doc_email[of f "fresh_id rows"]
      by auto
  next
    case (Some c)
    with assms(1) m a have "rows' = update_first matches apply_update rows"
      by (auto simp add: Contact_findOneAndUpdate_def split: if_splits)
    with assms(2) update_first_set[OF Some, of apply_update]
    have "k \<in> c_email ` set rows \<or> k = c_email (apply_update c)" by auto
    moreover from Some have "c \<in> set rows" by (auto simp add: find_Some_iff)
    ultimately show ?thesis using cast_update_email[OF a, of c] by auto
  qed
qed

lemma ghl_webhook_no_empty_email:
  assumes "Some [] \<notin> c_email ` set (contacts d)"
    and "\<forall>kvs. get_prop (js_or (get_prop data ''customData'') data) ''email'' \<noteq> JObj kvs"
  shows "Some [] \<notin> c_email ` set (contacts (snd (ghl_webhook w data d)))"
proof
  assume k: "Some [] \<in> c_email ` set (contacts (snd (ghl_webhook w data d)))"
  let ?p = "js_or (get_prop data ''customData'') data"
  let ?email = "sanitize_email (get_prop ?p ''email'')"
  let ?contactId = "get_prop ?p ''contactId''"
  let ?f = "if truthy ?contactId then ByGhlContactId ?contactId else ByEmail ?email"
  let ?u = "\<lparr>u_ghlContactId = ?contactId, u_email = ?email, u_phone = get_prop ?p ''phone'',
             u_firstName = get_prop ?p ''firstName'', u_lastName = get_prop ?p ''lastName'',
             u_locationId = js_or (get_prop ?p ''locationId'') (of_opt (GHL_LOCATION_ID w))\<rparr>"
  from k assms(1) obtain rows' where
    r: "Contact_findOneAndUpdate (contacts d) ?f ?u = Inr rows'" "Some [] \<in> c_email ` set rows'"
    by (auto simp add: ghl_webhook_def Let_def split: if_splits sum.splits)
  from Contact_findOneAndUpdate_emails[OF r] assms(1)
  have "castEmail ?email = Inr (Some []) \<or> (\<exists>v. ?f = ByEmail v \<and> castEmail v = Inr (Some []))"
    by auto
  then have "castEmail ?email = Inr (Some [])" by (auto split: if_splits)
  with castEmail_sanitized[OF assms(2)] show False by blast
qed

text \<open>
  C9. The configuration event for contact \<open>c1\<close> with an empty email is answered 200 and
  leaves a record without an email (the empty string is not stored). The same event for
  contact \<open>c2\<close> then selects the upsert by \<open>ghlContactId\<close>, which finds no record and
  inserts one without an email; the unique index on \<open>email\<close> refuses it, and the event is
  answered 500 with no record for \<open>c2\<close>.
\<close>

theorem empty_email_upsert_collides:
  "ghl_webhook sample_world (config_event ''c1'') empty_db
     = (\<lparr>status = 200, body = JObj [(''message'', JStr ''Contact synced'')]\<rparr>, db_after_c1)
   \<and> map c_email (contacts db_after_c1) = [None]
   \<and> sanitize_email (get_prop (config_event ''c2'') ''email'') = JUndefined
   \<and> Contact_findOneAndUpdate (contacts db_after_c1) (ByGhlContactId (JStr ''c2''))
         \<lparr>u_ghlContactId = JStr ''c2'', u_email = JUndefined, u_phone = JUndefined,
          u_firstName = JUndefined, u_lastName = JUndefined, u_locationId = JStr ''loc-1''\<rparr>
       = Inl DuplicateKey
   \<and> ghl_webhook sample_world (config_event ''c2'') db_after_c1
       = (internal_server_error, db_after_c1)"
proof -
  have 1: "ghl_webhook sample_world (config_event ''c1'') empty_db
     = (\<lparr>status = 200, body = JObj [(''message'', JStr ''Contact synced'')]\<rparr>, db_after_c1)"
    by code_simp
  have 2: "map c_email (contacts db_after_c1) = [None]" by (simp add: db_after_c1_def)
  have 3: "sanitize_email (get_prop (config_event ''c2'') ''email'') = JUndefined"
    by (simp add: config_event_def sanitize_email_def trim_def)
  have 4: "Contact_findOneAndUpdate (contacts db_after_c1) (ByGhlContactId (JStr ''c2''))
         \<lparr>u_ghlContactId = JStr ''c2'', u_email = JUndefined, u_phone = JUndefined,
          u_firstName = JUndefined, u_lastName = JUndefined, u_locationId = JStr ''loc-1''\<rparr>
       = Inl DuplicateKey"
    by code_simp
  have 5: "ghl_webhook sample_world (config_event ''c2'') db_after_c1
       = (internal_server_error, db_after_c1)"
    by code_simp
  from 1 2 3 4 5 show ?thesis by blast
qed


end
